theory Spec2Isabelle
  imports Complex_Main
begin

section \<open>Expressions (src/src/simpy/expr.py)\<close>

text \<open>
  The classes of expr.py as one datatype. \<open>Const\<close> holds a \<open>Fraction\<close>; \<open>Sum\<close> and
  \<open>Prod\<close> hold the list \<open>terms\<close>; the nine subclasses of \<open>TrigFunction\<close> differ only in
  their class, which fixes \<open>function\<close> and \<open>is_inverse\<close>. \<open>Log\<close> is always built with its
  default base \<open>e\<close>. A constructor of the datatype is the object itself; building an object
  the way Python does (\<open>__post_init__\<close> flattens and sorts the terms of a \<open>Sum\<close> or
  \<open>Prod\<close>) is \<open>Sum_new\<close> and \<open>Prod_new\<close> below.
\<close>

datatype trig_class = Sin | Cos | Tan | Csc | Sec | Cot | ArcSin | ArcCos | ArcTan

datatype expr =
    Const rat
  | Pi
  | E
  | Symbol string
  | Sum "expr list"
  | Prod "expr list"
  | Power expr expr
  | Log expr
  | TrigFunction trig_class expr

subsection \<open>Errors and results\<close>

text \<open>
  The exceptions the modelled code can raise, and two ways in which the model stops
  where the source goes on: \<open>OutOfFuel\<close> (the recursion is cut at the given depth) and
  \<open>NotAnExpr\<close> (the table of \<open>Cos\<close> holds a bare \<open>fractions.Fraction\<close> at four keys,
  which the source returns although it is not an \<open>Expr\<close>). \<open>NoSuchNode\<close> is the model's
  own as well: a node of the search tree is named by its position in the tree, and a
  position that leads nowhere has no counterpart among the object references of the source.
\<close>

datatype error =
    OutOfFuel
  | NotAnExpr
  | IndexError
  | AttributeError
  | KeyError
  | NotImplementedError
  | ValueError
  | NoSuchNode

type_synonym 'a res = "error + 'a"

abbreviation (input) bind :: "'a res \<Rightarrow> ('a \<Rightarrow> 'b res) \<Rightarrow> 'b res" where
  "bind m f \<equiv> (case m of Inl err \<Rightarrow> Inl err | Inr x \<Rightarrow> f x)"

fun map_res :: "('a \<Rightarrow> 'b res) \<Rightarrow> 'a list \<Rightarrow> 'b list res" where
  "map_res f [] = Inr []"
| "map_res f (x # xs) = bind (f x) (\<lambda>y. bind (map_res f xs) (\<lambda>ys. Inr (y # ys)))"

lemma map_res_cong [fundef_cong]:
  "xs = ys \<Longrightarrow> (\<And>x. x \<in> set ys \<Longrightarrow> f x = g x) \<Longrightarrow> map_res f xs = map_res g ys"
  by (induction ys arbitrary: xs) (auto split: sum.splits)

subsection \<open>Strings\<close>

text \<open>\<open>str\<close> of an \<open>int\<close> and of a \<open>Fraction\<close>; comparison of \<open>str\<close> by code point.\<close>

fun str_nat :: "nat \<Rightarrow> string" where
  "str_nat n =
     (if n < 10 then [char_of (48 + n)] else str_nat (n div 10) @ [char_of (48 + n mod 10)])"

declare str_nat.simps [simp del]

definition str_int :: "int \<Rightarrow> string" where
  "str_int i = (if i < 0 then ''-'' @ str_nat (nat (- i)) else str_nat (nat i))"

definition numerator :: "rat \<Rightarrow> int" where
  "numerator q = fst (quotient_of q)"

definition denominator :: "rat \<Rightarrow> int" where
  "denominator q = snd (quotient_of q)"

definition str_Fraction :: "rat \<Rightarrow> string" where
  "str_Fraction q =
     (if denominator q = 1 then str_int (numerator q)
      else str_int (numerator q) @ ''/'' @ str_int (denominator q))"

fun str_gt :: "string \<Rightarrow> string \<Rightarrow> bool" where
  "str_gt [] b = False"
| "str_gt (x # a) [] = True"
| "str_gt (x # a) (y # b) =
     (if (of_char x :: nat) = of_char y then str_gt a b else (of_char y :: nat) < of_char x)"

fun startswith :: "string \<Rightarrow> string \<Rightarrow> bool" where
  "startswith s [] = True"
| "startswith [] (p # ps) = False"
| "startswith (c # s) (p # ps) = (c = p \<and> startswith s ps)"

definition endswith :: "string \<Rightarrow> string \<Rightarrow> bool" where
  "endswith s p = startswith (rev s) (rev p)"

text \<open>\<open>p in s\<close> for strings.\<close>

fun str_in :: "string \<Rightarrow> string \<Rightarrow> bool" where
  "str_in p [] = (p = [])"
| "str_in p (c # s) = (startswith (c # s) p \<or> str_in p s)"

text \<open>\<open>sep.join(parts)\<close>.\<close>

fun join :: "string \<Rightarrow> string list \<Rightarrow> string" where
  "join sep [] = []"
| "join sep [s] = s"
| "join sep (s # t # ss) = s @ sep @ join sep (t # ss)"

subsection \<open>Structure of expressions\<close>

fun children :: "expr \<Rightarrow> expr list" where
  "children (Sum ts) = ts"
| "children (Prod ts) = ts"
| "children (Power b x) = [b, x]"
| "children (Log i) = [i]"
| "children (TrigFunction c i) = [i]"
| "children ex = []"

definition is_Const :: "expr \<Rightarrow> bool" where
  "is_Const ex = (case ex of Const c \<Rightarrow> True | _ \<Rightarrow> False)"

definition is_Sum :: "expr \<Rightarrow> bool" where
  "is_Sum ex = (case ex of Sum ts \<Rightarrow> True | _ \<Rightarrow> False)"

definition is_Prod :: "expr \<Rightarrow> bool" where
  "is_Prod ex = (case ex of Prod ts \<Rightarrow> True | _ \<Rightarrow> False)"

text \<open>\<open>Expr.contains\<close>; the variable is given by its name.\<close>

fun contains :: "expr \<Rightarrow> string \<Rightarrow> bool" where
  "contains (Symbol s) v = (s = v)"
| "contains (Sum ts) v = list_ex (\<lambda>t. contains t v) ts"
| "contains (Prod ts) v = list_ex (\<lambda>t. contains t v) ts"
| "contains (Power b x) v = (contains b v \<or> contains x v)"
| "contains (Log i) v = contains i v"
| "contains (TrigFunction c i) v = contains i v"
| "contains ex v = False"

text \<open>\<open>contains_cls(expr, TrigFunction)\<close>.\<close>

fun contains_TrigFunction :: "expr \<Rightarrow> bool" where
  "contains_TrigFunction (TrigFunction c i) = True"
| "contains_TrigFunction (Sum ts) = list_ex contains_TrigFunction ts"
| "contains_TrigFunction (Prod ts) = list_ex contains_TrigFunction ts"
| "contains_TrigFunction (Power b x) = (contains_TrigFunction b \<or> contains_TrigFunction x)"
| "contains_TrigFunction (Log i) = contains_TrigFunction i"
| "contains_TrigFunction ex = False"

text \<open>\<open>expr.symbols() != []\<close>: some \<open>Symbol\<close> occurs in the expression.\<close>

fun has_symbols :: "expr \<Rightarrow> bool" where
  "has_symbols (Symbol s) = True"
| "has_symbols (Sum ts) = list_ex has_symbols ts"
| "has_symbols (Prod ts) = list_ex has_symbols ts"
| "has_symbols (Power b x) = (has_symbols b \<or> has_symbols x)"
| "has_symbols (Log i) = has_symbols i"
| "has_symbols (TrigFunction c i) = has_symbols i"
| "has_symbols ex = False"

text \<open>
  \<open>nesting(expr, var)\<close>, with \<open>None\<close> for the default \<open>var=None\<close>. \<open>expr.terms[0]\<close> raises
  on a \<open>Prod\<close> without terms.
\<close>

definition not_containing :: "expr \<Rightarrow> string option \<Rightarrow> bool" where
  "not_containing ex var = (case var of None \<Rightarrow> False | Some v \<Rightarrow> \<not> contains ex v)"

definition one_plus_max :: "nat list \<Rightarrow> nat res" where
  "one_plus_max ns = Inr (1 + fold max ns 0)"

fun nesting :: "expr \<Rightarrow> string option \<Rightarrow> nat res" where
  "nesting (Prod ts) var =
     (if not_containing (Prod ts) var then Inr 0
      else case ts of
        [] \<Rightarrow> Inl IndexError
      | [t0, t1] \<Rightarrow>
          if t0 = Const (- 1) then nesting t1 var
          else bind (map_res (\<lambda>sub. nesting sub var) ts) one_plus_max
      | _ \<Rightarrow> bind (map_res (\<lambda>sub. nesting sub var) ts) one_plus_max)"
| "nesting (Symbol s) var =
     (if not_containing (Symbol s) var then Inr 0
      else if var = None \<or> var = Some s then Inr 1 else Inr 0)"
| "nesting (Sum ts) var =
     (if not_containing (Sum ts) var then Inr 0
      else if ts = [] then Inr 0
      else bind (map_res (\<lambda>sub. nesting sub var) ts) one_plus_max)"
| "nesting (Power b x) var =
     (if not_containing (Power b x) var then Inr 0
      else bind (map_res (\<lambda>sub. nesting sub var) [b, x]) one_plus_max)"
| "nesting (Log i) var =
     (if not_containing (Log i) var then Inr 0
      else bind (map_res (\<lambda>sub. nesting sub var) [i]) one_plus_max)"
| "nesting (TrigFunction c i) var =
     (if not_containing (TrigFunction c i) var then Inr 0
      else bind (map_res (\<lambda>sub. nesting sub var) [i]) one_plus_max)"
| "nesting ex var = Inr 0"

text \<open>\<open>deconstruct_power\<close>: \<open>x^3 -> (x, 3)\<close>, \<open>x -> (x, 1)\<close>.\<close>

definition deconstruct_power :: "expr \<Rightarrow> expr \<times> expr" where
  "deconstruct_power ex = (case ex of Power b x \<Rightarrow> (b, x) | _ \<Rightarrow> (ex, Const 1))"

subsection \<open>Sorting the terms of a \<open>Sum\<close> or \<open>Prod\<close> (\<open>Associative._sort_inplace\<close>)\<close>

text \<open>The value of \<open>_deconstruct_const_power(expr)\<close>.\<close>

definition deconstruct_const_power :: "expr \<Rightarrow> rat" where
  "deconstruct_const_power ex = (case ex of Power b (Const c) \<Rightarrow> c | _ \<Rightarrow> 1)"

text \<open>
  \<open>_compare(a, b) < 0\<close>, which is what \<open>cmp_to_key\<close> hands to \<open>sorted\<close>: first by nesting,
  then by the constant power, then by the text; the text is only computed when the first two
  are equal, and equal texts compare as ``less''.
\<close>

definition compare_lt :: "(expr \<Rightarrow> string res) \<Rightarrow> expr \<Rightarrow> expr \<Rightarrow> bool res" where
  "compare_lt repr' a b =
     bind (nesting a None) (\<lambda>na. bind (nesting b None) (\<lambda>nb.
       if na \<noteq> nb then Inr (na < nb)
       else if deconstruct_const_power a \<noteq> deconstruct_const_power b
         then Inr (deconstruct_const_power a < deconstruct_const_power b)
       else bind (repr' a) (\<lambda>ra. bind (repr' b) (\<lambda>rb. Inr (\<not> str_gt ra rb)))))"

text \<open>
  \<open>sorted\<close> as a stable insertion sort: each term in turn is put before the first term of
  the sorted prefix that it is less than. Where the terms that compare as equal in nesting,
  power and text are the same expression (as they are unless two different expressions
  share their text), every sorting algorithm returns this list.
\<close>

fun insert_term :: "(expr \<Rightarrow> expr \<Rightarrow> bool res) \<Rightarrow> expr \<Rightarrow> expr list \<Rightarrow> expr list res" where
  "insert_term lt x [] = Inr [x]"
| "insert_term lt x (y # ys) =
     bind (lt x y) (\<lambda>less.
       if less then Inr (x # y # ys)
       else bind (insert_term lt x ys) (\<lambda>r. Inr (y # r)))"

fun sort_into :: "(expr \<Rightarrow> expr \<Rightarrow> bool res) \<Rightarrow> expr list \<Rightarrow> expr list \<Rightarrow> expr list res" where
  "sort_into lt acc [] = Inr acc"
| "sort_into lt acc (x # xs) = bind (insert_term lt x acc) (\<lambda>acc'. sort_into lt acc' xs)"

definition sort_inplace :: "(expr \<Rightarrow> string res) \<Rightarrow> expr list \<Rightarrow> expr list res" where
  "sort_inplace repr' ts = sort_into (compare_lt repr') [] ts"

subsection \<open>Building a \<open>Sum\<close> or \<open>Prod\<close> (\<open>Associative.__post_init__\<close>)\<close>

text \<open>
  \<open>_flatten_inplace\<close>: a term of the same class is replaced by the terms of its
  \<open>_flatten()\<close>. \<open>_flatten\<close> builds a new object of the class from the flattened terms,
  which flattens and sorts once more.
\<close>

definition flatten_inplace ::
  "(expr \<Rightarrow> bool) \<Rightarrow> (expr \<Rightarrow> expr res) \<Rightarrow> expr list \<Rightarrow> expr list res" where
  "flatten_inplace is_cls flatten' ts =
     bind (map_res (\<lambda>t. if is_cls t then bind (flatten' t) (\<lambda>f. Inr (children f)) else Inr [t]) ts)
       (\<lambda>tss. Inr (concat tss))"

definition Associative_post_init ::
  "(expr \<Rightarrow> bool) \<Rightarrow> (expr list \<Rightarrow> expr) \<Rightarrow> (expr \<Rightarrow> expr res) \<Rightarrow> (expr \<Rightarrow> string res)
     \<Rightarrow> expr list \<Rightarrow> expr res" where
  "Associative_post_init is_cls cls flatten' repr' ts =
     bind (flatten_inplace is_cls flatten' ts) (\<lambda>ts1.
     bind (sort_inplace repr' ts1) (\<lambda>ts2. Inr (cls ts2)))"

definition Associative_flatten ::
  "(expr \<Rightarrow> bool) \<Rightarrow> (expr \<Rightarrow> expr res) \<Rightarrow> (expr list \<Rightarrow> expr res) \<Rightarrow> expr \<Rightarrow> expr res" where
  "Associative_flatten is_cls flatten' new' self =
     bind (flatten_inplace is_cls flatten' (children self)) new'"

subsection \<open>The methods an expression calls on other expressions\<close>

text \<open>
  \<open>simplify\<close>, \<open>__repr__\<close> and the constructors of \<open>Sum\<close> and \<open>Prod\<close> call each other. Each
  method below takes the four as a record and is tied to the others further down.
\<close>

record methods =
  simplify_m :: "expr \<Rightarrow> expr res"
  repr_m :: "expr \<Rightarrow> string res"
  Sum_m :: "expr list \<Rightarrow> expr res"
  Prod_m :: "expr list \<Rightarrow> expr res"

text \<open>
  The operators of \<open>Expr\<close>: \<open>a + b\<close> is \<open>Sum([a, b])\<close>, \<open>a * b\<close> is \<open>Prod([a, b])\<close>,
  \<open>a / b\<close> is \<open>Prod([a, Power(b, -1)])\<close>, \<open>-a\<close> is \<open>-1 * a\<close>, that is \<open>Prod([Const(-1), a])\<close>,
  and \<open>a - b\<close> is \<open>a + (-1 * b)\<close>.
\<close>

definition add :: "methods \<Rightarrow> expr \<Rightarrow> expr \<Rightarrow> expr res" where
  "add m a b = Sum_m m [a, b]"

definition mul :: "methods \<Rightarrow> expr \<Rightarrow> expr \<Rightarrow> expr res" where
  "mul m a b = Prod_m m [a, b]"

definition truediv :: "methods \<Rightarrow> expr \<Rightarrow> expr \<Rightarrow> expr res" where
  "truediv m a b = Prod_m m [a, Power b (Const (- 1))]"

definition neg :: "methods \<Rightarrow> expr \<Rightarrow> expr res" where
  "neg m a = Prod_m m [Const (- 1), a]"

definition sub :: "methods \<Rightarrow> expr \<Rightarrow> expr \<Rightarrow> expr res" where
  "sub m a b = bind (Prod_m m [Const (- 1), b]) (\<lambda>nb. Sum_m m [a, nb])"

definition sqrt_expr :: "expr \<Rightarrow> expr" where
  "sqrt_expr x = Power x (Const (1 / 2))"


subsection \<open>\<open>__repr__\<close>\<close>

definition Const_repr :: "rat \<Rightarrow> string" where
  "Const_repr v =
     (if denominator v \<noteq> 1 then ''('' @ str_Fraction v @ '')'' else str_Fraction v)"

text \<open>\<open>Prod.is_subtraction\<close>, on the terms of the product.\<close>

definition is_subtraction :: "expr list \<Rightarrow> bool res" where
  "is_subtraction ts =
     (case ts of [] \<Rightarrow> Inl IndexError
      | t # rest \<Rightarrow> Inr (case t of Const c \<Rightarrow> c < 0 | _ \<Rightarrow> False))"

text \<open>The function \<open>_repr(inner, label)\<close> of the module.\<close>

definition func_repr :: "methods \<Rightarrow> expr \<Rightarrow> string \<Rightarrow> string res" where
  "func_repr m inner label =
     bind (repr_m m inner) (\<lambda>inner_repr.
       case inner_repr of
         [] \<Rightarrow> Inl IndexError
       | c # cs \<Rightarrow>
           if c = CHR ''('' \<and> last inner_repr = CHR '')'' then Inr (label @ inner_repr)
           else Inr (label @ ''('' @ inner_repr @ '')''))"

text \<open>\<open>Sum.__repr__\<close>: the first term, and each later term with its sign.\<close>

definition Sum_repr_later :: "methods \<Rightarrow> expr \<Rightarrow> string res" where
  "Sum_repr_later m term =
     bind (case term of Prod pts \<Rightarrow> is_subtraction pts | _ \<Rightarrow> Inr False) (\<lambda>subtraction.
       if subtraction
       then bind (mul m term (Const (- 1))) (\<lambda>p. bind (simplify_m m p) (\<lambda>q.
            bind (repr_m m q) (\<lambda>s. Inr ('' - '' @ s))))
       else bind (repr_m m term) (\<lambda>s. Inr ('' + '' @ s)))"

definition Sum_repr :: "methods \<Rightarrow> expr list \<Rightarrow> string res" where
  "Sum_repr m ts =
     (case ts of
        [] \<Rightarrow> Inr []
      | t # rest \<Rightarrow>
          bind (repr_m m t) (\<lambda>s0. bind (map_res (Sum_repr_later m) rest) (\<lambda>ss.
            Inr (s0 @ concat ss))))"

text \<open>\<open>_term_repr\<close> of \<open>Prod.__repr__\<close> and of \<open>Power.__repr__\<close>.\<close>

definition Prod_term_repr :: "methods \<Rightarrow> expr \<Rightarrow> string res" where
  "Prod_term_repr m term =
     bind (repr_m m term) (\<lambda>s. if is_Sum term then Inr (''('' @ s @ '')'') else Inr s)"

definition Power_term_repr :: "methods \<Rightarrow> expr \<Rightarrow> string res" where
  "Power_term_repr m term =
     bind (repr_m m term) (\<lambda>s.
       if is_Sum term \<or> is_Prod term then Inr (''('' @ s @ '')'') else Inr s)"

text \<open>\<open>Prod.numerator_denominator\<close>: what one term adds to the two lists, and the property.\<close>

definition numerator_denominator_term :: "methods \<Rightarrow> expr \<Rightarrow> (expr list \<times> expr list) res" where
  "numerator_denominator_term m term =
     (case term of
        Const c \<Rightarrow>
          Inr ((if numerator c \<noteq> 1 then [Const (of_int (numerator c))] else []),
               (if denominator c \<noteq> 1 then [Const (of_int (denominator c))] else []))
      | _ \<Rightarrow>
          (case deconstruct_power term of
             (b, Const c) \<Rightarrow>
               if c < 0 then
                 (if c = - 1 then Inr ([], [b])
                  else bind (neg m (Const c)) (\<lambda>nx. bind (simplify_m m nx) (\<lambda>px.
                       Inr ([], [Power b px]))))
               else Inr ([term], [])
           | (b, x) \<Rightarrow> Inr ([term], [])))"

definition single_or_Prod :: "methods \<Rightarrow> expr list \<Rightarrow> expr res" where
  "single_or_Prod m fs =
     (if length fs > 1 then Prod_m m fs else if length fs = 1 then Inr (hd fs) else Inr (Const 1))"

definition numerator_denominator :: "methods \<Rightarrow> expr list \<Rightarrow> (expr \<times> expr) res" where
  "numerator_denominator m ts =
     bind (map_res (numerator_denominator_term m) ts) (\<lambda>parts.
     bind (single_or_Prod m (concat (map fst parts))) (\<lambda>num_expr.
     bind (single_or_Prod m (concat (map snd parts))) (\<lambda>denom_expr.
       Inr (num_expr, denom_expr))))"

text \<open>\<open>_x\<close> of \<open>Prod.__repr__\<close>.\<close>

definition Prod_x_repr :: "methods \<Rightarrow> expr \<Rightarrow> string res" where
  "Prod_x_repr m p =
     (case p of
        Prod [t] \<Rightarrow> Prod_term_repr m t
      | Prod pts \<Rightarrow> bind (repr_m m p) (\<lambda>s. Inr (''('' @ s @ '')''))
      | _ \<Rightarrow> Prod_term_repr m p)"

definition Prod_repr :: "methods \<Rightarrow> expr list \<Rightarrow> string res" where
  "Prod_repr m ts =
     bind (is_subtraction ts) (\<lambda>subtraction.
       if subtraction then
         bind (mul m (Prod ts) (Const (- 1))) (\<lambda>p. bind (simplify_m m p) (\<lambda>new_prod.
           if \<not> is_Prod new_prod then bind (Prod_term_repr m new_prod) (\<lambda>s. Inr (''-'' @ s))
           else bind (repr_m m new_prod) (\<lambda>s. Inr (''-'' @ s))))
       else
         bind (numerator_denominator m ts) (\<lambda>(num_expr, denom_expr).
           if denom_expr \<noteq> Const 1 then
             bind (Prod_x_repr m num_expr) (\<lambda>a. bind (Prod_x_repr m denom_expr) (\<lambda>b.
               Inr (a @ ''/'' @ b)))
           else bind (map_res (Prod_term_repr m) ts) (\<lambda>ss. Inr (join ''*'' ss))))"

definition Power_repr :: "methods \<Rightarrow> expr \<Rightarrow> expr \<Rightarrow> string res" where
  "Power_repr m base exponent =
     (if exponent = Const (- 1) then bind (Power_term_repr m base) (\<lambda>s. Inr (''1/'' @ s))
      else if exponent = Const (1 / 2) then func_repr m base ''sqrt''
      else if exponent = Const (- 1 / 2) then
        bind (func_repr m base ''sqrt'') (\<lambda>s. Inr (''1/'' @ s))
      else bind (Power_term_repr m base) (\<lambda>sb. bind (Power_term_repr m exponent) (\<lambda>sx.
        Inr (sb @ ''^'' @ sx))))"

text \<open>\<open>TrigFunction.function\<close>, \<open>is_inverse\<close> and \<open>_label\<close>, which the class fixes.\<close>

fun trig_function :: "trig_class \<Rightarrow> string" where
  "trig_function Sin = ''sin''"
| "trig_function Cos = ''cos''"
| "trig_function Tan = ''tan''"
| "trig_function Csc = ''csc''"
| "trig_function Sec = ''sec''"
| "trig_function Cot = ''cot''"
| "trig_function ArcSin = ''sin''"
| "trig_function ArcCos = ''cos''"
| "trig_function ArcTan = ''tan''"

definition is_inverse :: "trig_class \<Rightarrow> bool" where
  "is_inverse c = (c = ArcSin \<or> c = ArcCos \<or> c = ArcTan)"

definition trig_label :: "trig_class \<Rightarrow> string" where
  "trig_label c = (if is_inverse c then ''a'' @ trig_function c else trig_function c)"

definition Expr_repr :: "methods \<Rightarrow> expr \<Rightarrow> string res" where
  "Expr_repr m ex =
     (case ex of
        Const v \<Rightarrow> Inr (Const_repr v)
      | Pi \<Rightarrow> Inr ''pi''
      | E \<Rightarrow> Inr ''e''
      | Symbol name \<Rightarrow> Inr name
      | Sum ts \<Rightarrow> Sum_repr m ts
      | Prod ts \<Rightarrow> Prod_repr m ts
      | Power b x \<Rightarrow> Power_repr m b x
      | Log inner \<Rightarrow> func_repr m inner ''ln''
      | TrigFunction c inner \<Rightarrow> func_repr m inner (trig_label c))"

subsection \<open>\<open>Sum.simplify\<close>\<close>

text \<open>\<open>_deconstruct_prod\<close>: \<open>3*x^2*y -> (3, [x^2, y])\<close>.\<close>

definition deconstruct_prod :: "methods \<Rightarrow> expr \<Rightarrow> (expr \<times> expr list) res" where
  "deconstruct_prod m ex =
     (case ex of
        Prod ts \<Rightarrow>
          bind (if filter is_Const ts \<noteq> []
                then bind (Prod_m m (filter is_Const ts)) (simplify_m m)
                else Inr (Const 1)) (\<lambda>coeff.
            Inr (coeff, filter (\<lambda>t. \<not> is_Const t) ts))
      | _ \<Rightarrow> Inr (Const 1, [ex]))"

text \<open>
  The two nested loops that accumulate like terms. The list holds \<open>None\<close> where the source
  has overwritten \<open>terms[j]\<close> with \<open>None\<close>. \<open>merge_like_terms\<close> is the inner loop over the
  later terms; \<open>accumulate_like_terms\<close> is the outer loop, whose first argument counts the
  iterations that are left.
\<close>

fun merge_like_terms ::
  "methods \<Rightarrow> expr \<Rightarrow> expr list \<Rightarrow> expr option list \<Rightarrow> (expr \<times> expr option list) res" where
  "merge_like_terms m new_coeff factors1 [] = Inr (new_coeff, [])"
| "merge_like_terms m new_coeff factors1 (None # later) =
     bind (merge_like_terms m new_coeff factors1 later) (\<lambda>(c, later').
       Inr (c, None # later'))"
| "merge_like_terms m new_coeff factors1 (Some term2 # later) =
     bind (deconstruct_prod m term2) (\<lambda>(coeff2, factors2).
       if factors1 = factors2 then
         bind (add m new_coeff coeff2) (\<lambda>new_coeff'.
         bind (merge_like_terms m new_coeff' factors1 later) (\<lambda>(c, later').
           Inr (c, None # later')))
       else
         bind (merge_like_terms m new_coeff factors1 later) (\<lambda>(c, later').
           Inr (c, Some term2 # later')))"

fun accumulate_like_terms :: "methods \<Rightarrow> nat \<Rightarrow> expr option list \<Rightarrow> expr list res" where
  "accumulate_like_terms m 0 terms = Inr []"
| "accumulate_like_terms m (Suc k) [] = Inr []"
| "accumulate_like_terms m (Suc k) (None # later) = accumulate_like_terms m k later"
| "accumulate_like_terms m (Suc k) (Some term # later) =
     (if is_Const term then
        bind (accumulate_like_terms m k later) (\<lambda>new_terms. Inr (term # new_terms))
      else
        bind (deconstruct_prod m term) (\<lambda>(coeff, factors1).
        bind (merge_like_terms m coeff factors1 later) (\<lambda>(new_coeff, later').
        bind (Prod_m m (new_coeff # factors1)) (\<lambda>p.
        bind (simplify_m m p) (\<lambda>new_term.
        bind (accumulate_like_terms m k later') (\<lambda>new_terms.
          Inr (new_term # new_terms)))))))"

text \<open>The \<open>value\<close> of the terms that are \<open>Const\<close>.\<close>

fun Const_values :: "expr list \<Rightarrow> rat list" where
  "Const_values [] = []"
| "Const_values (Const v # ts) = v # Const_values ts"
| "Const_values (t # ts) = Const_values ts"

text \<open>
  The regular expressions of \<open>Sum.simplify\<close>. A \<open>str\<close> is read as its Latin-1 code points;
  \<open>is_word_char\<close> is \<open>\w\<close> on them.
\<close>

definition is_word_char :: "char \<Rightarrow> bool" where
  "is_word_char c =
     (let n = (of_char c :: nat) in
        (48 \<le> n \<and> n \<le> 57) \<or> (65 \<le> n \<and> n \<le> 90) \<or> n = 95 \<or> (97 \<le> n \<and> n \<le> 122)
        \<or> n = 170 \<or> n = 178 \<or> n = 179 \<or> n = 181 \<or> n = 185 \<or> n = 186
        \<or> (188 \<le> n \<and> n \<le> 190) \<or> (192 \<le> n \<and> n \<le> 214) \<or> (216 \<le> n \<and> n \<le> 246)
        \<or> 248 \<le> n)"

text \<open>
  \<open>re.search(prefix + r"(\w+)\)\^2", s)\<close> for a literal prefix: the group of the leftmost
  match. After the prefix the longest run of word characters must be followed by \<open>)^2\<close>
  (a shorter run is followed by a word character, never by the bracket).
\<close>

definition match_word_squared :: "string \<Rightarrow> string \<Rightarrow> string option" where
  "match_word_squared prefix s =
     (if startswith s prefix then
        (let rest = drop (length prefix) s; w = takeWhile is_word_char rest in
           if w \<noteq> [] \<and> startswith (drop (length w) rest) '')^2'' then Some w else None)
      else None)"

fun search_word_squared :: "string \<Rightarrow> string \<Rightarrow> string option" where
  "search_word_squared prefix [] = match_word_squared prefix []"
| "search_word_squared prefix (c # s) =
     (case match_word_squared prefix (c # s) of
        Some w \<Rightarrow> Some w
      | None \<Rightarrow> search_word_squared prefix s)"

text \<open>
  \<open>re.search("^" + prefix + r"(.+)\)\^2$", s)\<close> for a literal prefix: the group. \<open>.\<close> does
  not match a newline, and \<open>$\<close> matches at the end and before a newline that ends the text.
\<close>

definition newline :: char where
  "newline = char_of (10 :: nat)"

definition match_any_squared :: "string \<Rightarrow> string \<Rightarrow> string option" where
  "match_any_squared prefix s =
     (if startswith s prefix then
        (let rest = drop (length prefix) s;
             g = (if endswith rest '')^2'' then Some (take (length rest - 3) rest)
                  else if endswith rest ('')^2'' @ [newline]) then Some (take (length rest - 4) rest)
                  else None)
         in case g of
              Some grp \<Rightarrow> if grp \<noteq> [] \<and> newline \<notin> set grp then Some grp else None
            | None \<Rightarrow> None)
      else None)"

text \<open>
  \<open>pythagorean_trig_identities\<close>, in the order of the dictionary: the literal before the
  group, and the replacement.
\<close>

definition pythagorean_trig_identities :: "(string \<times> (methods \<Rightarrow> expr \<Rightarrow> expr res)) list" where
  "pythagorean_trig_identities =
     [(''1 + tan('', \<lambda>m x. Inr (Power (TrigFunction Sec x) (Const 2))),
      (''1 + cot('', \<lambda>m x. Inr (Power (TrigFunction Csc x) (Const 2))),
      (''1 - sin('', \<lambda>m x. Inr (Power (TrigFunction Cos x) (Const 2))),
      (''1 - cos('', \<lambda>m x. Inr (Power (TrigFunction Sin x) (Const 2))),
      (''1 - tan('', \<lambda>m x. truediv m (Const 1) (Power (TrigFunction Tan x) (Const 2))),
      (''1 - cot('', \<lambda>m x. truediv m (Const 1) (Power (TrigFunction Cot x) (Const 2)))]"

text \<open>The first loop: the first pattern that matches decides, when the sum has two terms.\<close>

fun first_identity ::
  "(string \<times> (methods \<Rightarrow> expr \<Rightarrow> expr res)) list \<Rightarrow> string
     \<Rightarrow> (string \<times> (methods \<Rightarrow> expr \<Rightarrow> expr res)) option" where
  "first_identity [] s = None"
| "first_identity ((prefix, replacement) # rest) s =
     (case search_word_squared prefix s of
        Some result \<Rightarrow> Some (result, replacement)
      | None \<Rightarrow> first_identity rest s)"

text \<open>\<open>other_table\<close>: the literals before the groups of the two patterns of a row.\<close>

definition other_table :: "(string \<times> string) list" where
  "other_table = [(''sin('', ''cos(''), (''sec('', ''-tan('')]"

text \<open>
  The second loop, over the rows of \<open>other_table\<close>: \<open>rs\<close> are the texts of the terms of
  \<open>new_sum\<close>. The first \<open>m\<close> of \<open>r1\<close> that is also in \<open>r2\<close> decides.
\<close>

fun other_identity :: "methods \<Rightarrow> (string \<times> string) list \<Rightarrow> expr \<Rightarrow> (expr \<times> string) list \<Rightarrow> expr res"
  where
  "other_identity m [] new_sum rs = Inr new_sum"
| "other_identity m ((prefix1, prefix2) # rows) new_sum rs =
     (let r1 = List.map_filter (\<lambda>(t, r). match_any_squared prefix1 r) rs;
          r2 = List.map_filter (\<lambda>(t, r). match_any_squared prefix2 r) rs
      in case filter (\<lambda>g. g \<in> set r2) r1 of
           [] \<Rightarrow> other_identity m rows new_sum rs
         | g # gs \<Rightarrow>
             bind (Sum_m m (Const 1 #
                     map fst (filter (\<lambda>(t, r). r \<noteq> ''sin('' @ g @ '')^2''
                                            \<and> r \<noteq> ''cos('' @ g @ '')^2'') rs)))
               (simplify_m m))"

definition Sum_simplify :: "methods \<Rightarrow> expr list \<Rightarrow> expr res" where
  "Sum_simplify m ts =
     bind (map_res (simplify_m m) ts) (\<lambda>terms.
     bind (accumulate_like_terms m (length terms) (map Some terms)) (\<lambda>new_terms.
       let const = sum_list (Const_values new_terms);
           non_constant_terms = filter (\<lambda>t. \<not> is_Const t) new_terms
       in
       if const = 0 \<and> non_constant_terms = [] then Inr (Const 0)
       else
         let final_terms = (if const \<noteq> 0 then [Const const] else []) @ non_constant_terms in
         if length final_terms = 1 then Inr (hd final_terms)
         else
           bind (Sum_m m final_terms) (\<lambda>new_sum.
             if contains_TrigFunction new_sum then
               bind (repr_m m new_sum) (\<lambda>s.
                 case (if length (children new_sum) = 2
                       then first_identity pythagorean_trig_identities s else None) of
                   Some (result, replacement) \<Rightarrow>
                     bind (replacement m (Symbol result)) (simplify_m m)
                 | None \<Rightarrow>
                     bind (map_res (\<lambda>t. bind (repr_m m t) (\<lambda>r. Inr (t, r))) (children new_sum))
                       (other_identity m other_table new_sum))
             else Inr new_sum)))"

subsection \<open>\<open>Prod.simplify\<close>\<close>

text \<open>The two nested loops that accumulate like bases, as for \<open>Sum.simplify\<close>.\<close>

fun merge_like_bases ::
  "methods \<Rightarrow> expr \<Rightarrow> expr \<Rightarrow> expr option list \<Rightarrow> (expr \<times> expr option list) res" where
  "merge_like_bases m base expo [] = Inr (expo, [])"
| "merge_like_bases m base expo (None # later) =
     bind (merge_like_bases m base expo later) (\<lambda>(x, later'). Inr (x, None # later'))"
| "merge_like_bases m base expo (Some other # later) =
     (if fst (deconstruct_power other) = base then
        bind (add m expo (snd (deconstruct_power other))) (\<lambda>expo'.
        bind (merge_like_bases m base expo' later) (\<lambda>(x, later'). Inr (x, None # later')))
      else
        bind (merge_like_bases m base expo later) (\<lambda>(x, later').
          Inr (x, Some other # later')))"

fun accumulate_like_bases :: "methods \<Rightarrow> nat \<Rightarrow> expr option list \<Rightarrow> expr list res" where
  "accumulate_like_bases m 0 terms = Inr []"
| "accumulate_like_bases m (Suc k) [] = Inr []"
| "accumulate_like_bases m (Suc k) (None # later) = accumulate_like_bases m k later"
| "accumulate_like_bases m (Suc k) (Some term # later) =
     bind (merge_like_bases m (fst (deconstruct_power term)) (snd (deconstruct_power term)) later)
       (\<lambda>(expo, later').
     bind (simplify_m m (Power (fst (deconstruct_power term)) expo)) (\<lambda>new_term.
     bind (accumulate_like_bases m k later') (\<lambda>new_terms.
       Inr (new_term # new_terms))))"

definition Prod_simplify :: "methods \<Rightarrow> expr list \<Rightarrow> expr res" where
  "Prod_simplify m ts =
     bind (map_res (simplify_m m) ts) (\<lambda>simplified.
     bind (Prod_m m simplified) (\<lambda>simplified_and_flattened.
     bind (accumulate_like_bases m (length (children simplified_and_flattened))
             (map Some (children simplified_and_flattened))) (\<lambda>terms.
       if list_ex (\<lambda>t. t = Const 0) terms then Inr (Const 0)
       else
         let const = prod_list (Const_values terms);
             non_constant_terms = filter (\<lambda>t. \<not> is_Const t) terms
         in
         if non_constant_terms = [] then Inr (Const const)
         else
           let terms' = (if const = 1 then [] else [Const const]) @ non_constant_terms in
           if length terms' = 1 then Inr (hd terms') else Prod_m m terms')))"

subsection \<open>\<open>Power.simplify\<close>\<close>

text \<open>
  \<open>Fraction.__pow__\<close> followed by \<open>Const(...)\<close>, inside \<open>try\<close>: \<open>None\<close> when an exception is
  raised. With a whole exponent the power is exact (zero to a negative power raises
  \<open>ZeroDivisionError\<close>, as it does from Python 3.12 on). Otherwise Python computes
  \<open>float(a) ** float(b)\<close>, and \<open>Const\<close> accepts the result only if it is a whole number;
  the parameter \<open>float_pow\<close> stands for this floating-point computation: \<open>float_pow a b\<close>
  is that whole number, and \<open>None\<close> if the result is not one (or not a float at all).
\<close>

definition Const_pow :: "(rat \<Rightarrow> rat \<Rightarrow> rat option) \<Rightarrow> rat \<Rightarrow> rat \<Rightarrow> rat option" where
  "Const_pow float_pow a b =
     (if denominator b = 1 then
        (if 0 \<le> numerator b then Some (a ^ nat (numerator b))
         else if a = 0 then None
         else Some ((1 / a) ^ nat (- numerator b)))
      else float_pow a b)"

text \<open>The loop over the terms of an exponent that is a \<open>Prod\<close>: the first \<open>Log\<close> decides.\<close>

fun split_at_Log :: "expr list \<Rightarrow> expr list \<Rightarrow> (expr \<times> expr list) option" where
  "split_at_Log seen [] = None"
| "split_at_Log seen (Log i # after) = Some (Log i, seen @ after)"
| "split_at_Log seen (t # after) = split_at_Log (seen @ [t]) after"

definition Power_simplify ::
  "(rat \<Rightarrow> rat \<Rightarrow> rat option) \<Rightarrow> methods \<Rightarrow> expr \<Rightarrow> expr \<Rightarrow> expr res" where
  "Power_simplify float_pow m base exponent =
     bind (simplify_m m exponent) (\<lambda>x.
     bind (simplify_m m base) (\<lambda>b.
       if x = Const 0 \<and> b \<noteq> Const 0 then Inr (Const 1)
       else if x = Const 1 then Inr b
       else case (b, x) of
         (Const bv, Const xv) \<Rightarrow>
           (case Const_pow float_pow bv xv of
              Some v \<Rightarrow> Inr (Const v)
            | None \<Rightarrow>
                if denominator bv = 1 then Inr (Power b x)
                else
                  (case (Const_pow float_pow (of_int (numerator bv)) xv,
                         Const_pow float_pow (of_int (denominator bv)) xv) of
                     (None, None) \<Rightarrow> Inr (Power b x)
                   | (num, denom) \<Rightarrow>
                       truediv m
                         (case num of Some v \<Rightarrow> Const v
                          | None \<Rightarrow> Power (Const (of_int (numerator bv))) (Const xv))
                         (case denom of Some v \<Rightarrow> Const v
                          | None \<Rightarrow> Power (Const (of_int (denominator bv))) (Const xv))))
       | (Power bb bx, _) \<Rightarrow>
           bind (mul m x bx) (\<lambda>p. simplify_m m (Power bb p))
       | (Prod bts, _) \<Rightarrow>
           bind (map_res (\<lambda>term. simplify_m m (Power term x)) bts) (Prod_m m)
       | (_, Log inner) \<Rightarrow>
           if b = E then simplify_m m inner else Inr (Power b x)
       | (_, Prod xts) \<Rightarrow>
           (case (if b = E then split_at_Log [] xts else None) of
              Some (t, others) \<Rightarrow>
                bind (Prod_m m others) (\<lambda>rest.
                bind (simplify_m m (Power b t)) (\<lambda>y.
                  simplify_m m (Power y rest)))
            | None \<Rightarrow> Inr (Power b x))
       | _ \<Rightarrow> Inr (Power b x)))"

subsection \<open>\<open>Sum.factor\<close>\<close>

text \<open>
  \<open>_df\<close>: a term as its coefficient and its factors \<open>[factor, abs(exponent),
  sign(exponent)]\<close>; the middle entry, a \<open>Const\<close> in the source, is kept as its value.
\<close>

type_synonym factor = "expr \<times> rat \<times> bool"

fun df :: "methods \<Rightarrow> expr \<Rightarrow> (expr \<times> factor list) res" where
  "df m (Prod ts) =
     bind (deconstruct_prod m (Prod ts)) (\<lambda>(num, terms).
     bind (map_res (\<lambda>f. bind (df m f) (\<lambda>(c, fs).
                      case fs of [] \<Rightarrow> Inl IndexError | f0 # rest \<Rightarrow> Inr f0))
             (filter (\<lambda>t. \<not> is_Const t) ts)) (\<lambda>factors.
       Inr (num, factors)))"
| "df m (Power b (Const c)) = Inr (Const 1, [(b, \<bar>c\<bar>, 0 < c)])"
| "df m (Const c) = Inr (Const c, [(Const c, 1, True)])"
| "df m term = Inr (Const 1, [(term, 1, True)])"

text \<open>\<open>c.value\<close> of an object that need not be a \<open>Const\<close>.\<close>

definition Const_value :: "expr \<Rightarrow> rat res" where
  "Const_value ex = (case ex of Const v \<Rightarrow> Inr v | _ \<Rightarrow> Inl AttributeError)"

text \<open>
  The loops over the common factors: each common factor that is still there is looked up
  among the factors of the next term, by text and sign, and keeps the smaller exponent.
\<close>

fun find_tfactor :: "methods \<Rightarrow> factor \<Rightarrow> factor list \<Rightarrow> factor option res" where
  "find_tfactor m cfactor [] = Inr None"
| "find_tfactor m cfactor (tfactor # tfactors) =
     bind (repr_m m (fst cfactor)) (\<lambda>rc. bind (repr_m m (fst tfactor)) (\<lambda>rt.
       if rc = rt \<and> snd (snd cfactor) = snd (snd tfactor)
       then Inr (Some (fst cfactor, min (fst (snd cfactor)) (fst (snd tfactor)), snd (snd cfactor)))
       else find_tfactor m cfactor tfactors))"

definition common_with :: "methods \<Rightarrow> factor option list \<Rightarrow> factor list \<Rightarrow> factor option list res"
  where
  "common_with m common_factors this_terms_factors =
     map_res (\<lambda>cf. case cf of None \<Rightarrow> Inr None
                    | Some cfactor \<Rightarrow> find_tfactor m cfactor this_terms_factors) common_factors"

fun common_factors_loop ::
  "methods \<Rightarrow> factor option list \<Rightarrow> factor list list \<Rightarrow> factor option list res" where
  "common_factors_loop m common_factors [] = Inr common_factors"
| "common_factors_loop m common_factors (tfs # rest) =
     bind (common_with m common_factors tfs) (\<lambda>common'. common_factors_loop m common' rest)"

text \<open>The loop over the coefficients; \<open>None\<close> after the \<open>break\<close>.\<close>

fun common_coeff_loop :: "methods \<Rightarrow> rat \<Rightarrow> expr list \<Rightarrow> rat option res" where
  "common_coeff_loop m common_coeff [] = Inr (Some common_coeff)"
| "common_coeff_loop m common_coeff (c # cs) =
     bind (truediv m c (Const common_coeff)) (\<lambda>q1. bind (simplify_m m q1) (\<lambda>x.
     bind (truediv m (Const common_coeff) c) (\<lambda>q2. bind (simplify_m m q2) (\<lambda>y.
     bind (Const_value x) (\<lambda>xv.
     bind (if denominator xv = 1 then Inr True
           else bind (Const_value y) (\<lambda>yv. Inr (denominator yv = 1))) (\<lambda>divides.
       if divides then
         bind (Const_value c) (\<lambda>cv. common_coeff_loop m (min \<bar>cv\<bar> \<bar>common_coeff\<bar>) cs)
       else Inr None))))))"

definition Sum_factor :: "methods \<Rightarrow> expr list \<Rightarrow> expr res" where
  "Sum_factor m ts =
     bind (map_res (df m) ts) (\<lambda>dfs.
       case dfs of
         [] \<Rightarrow> Inl IndexError
       | (coeff0, factors0) # later \<Rightarrow>
           bind (common_factors_loop m (map Some factors0) (map snd later)) (\<lambda>common.
           bind (Const_value coeff0) (\<lambda>c0.
           bind (common_coeff_loop m \<bar>c0\<bar> (map fst later)) (\<lambda>common_coeff.
           bind (map_res Const_value (map fst dfs)) (\<lambda>cvs.
           bind (case common_coeff of
                   None \<Rightarrow> Inr None
                 | Some cc \<Rightarrow>
                     if list_all (\<lambda>c. c < 0) cvs
                     then bind (mul m (Const cc) (Const (- 1))) (\<lambda>p. Inr (Some p))
                     else Inr (Some (Const cc))) (\<lambda>common_coeff'.
           bind (case List.map_filter (\<lambda>f. f) common of
                   [] \<Rightarrow> Inr (Const 1)
                 | fs \<Rightarrow>
                     bind (map_res (\<lambda>(f, p, s).
                             bind (mul m (Const p) (Const (if s then 1 else - 1))) (\<lambda>x.
                               Inr (Power f x))) fs) (Prod_m m)) (\<lambda>common_expr.
           bind (case common_coeff' of
                   None \<Rightarrow> Inr common_expr
                 | Some cc \<Rightarrow> mul m common_expr cc) (\<lambda>common_expr'.
           bind (map_res (\<lambda>term. truediv m term common_expr') ts) (\<lambda>new_terms.
           bind (Sum_m m new_terms) (\<lambda>s.
           bind (mul m common_expr' s) (simplify_m m)))))))))))"

subsection \<open>\<open>Log.simplify\<close>\<close>

text \<open>\<open>reciprocal_class\<close> of \<open>Csc\<close>, \<open>Sec\<close> and \<open>Cot\<close>; it is \<open>None\<close> for the other classes.\<close>

fun reciprocal_class :: "trig_class \<Rightarrow> trig_class option" where
  "reciprocal_class Csc = Some Sin"
| "reciprocal_class Sec = Some Cos"
| "reciprocal_class Cot = Some Tan"
| "reciprocal_class c = None"

definition Log_simplify :: "methods \<Rightarrow> expr \<Rightarrow> expr res" where
  "Log_simplify m inner0 =
     bind (simplify_m m inner0) (\<lambda>inner.
       if inner = Const 1 then Inr (Const 0)
       else if inner = E then Inr (Const 1)
       else case inner of
         Power b x \<Rightarrow> bind (mul m (Log b) x) (simplify_m m)
       | Prod ts \<Rightarrow> bind (Sum_m m (map Log ts)) (simplify_m m)
       | Sum ts \<Rightarrow>
           bind (Sum_factor m ts) (\<lambda>factored.
             case factored of
               Prod fts \<Rightarrow>
                 bind (Sum_factor m ts) (\<lambda>factored'.
                 bind (Sum_m m (map Log (children factored'))) (simplify_m m))
             | _ \<Rightarrow> Inr (Log inner))
       | TrigFunction c i \<Rightarrow>
           (case reciprocal_class c of
              Some r \<Rightarrow>
                bind (simplify_m m (Log (TrigFunction r i))) (\<lambda>l. Prod_m m [Const (- 1), l])
            | None \<Rightarrow> Inr (Log inner))
       | _ \<Rightarrow> Inr (Log inner))"

subsection \<open>\<open>TrigFunction.simplify\<close> and its overrides\<close>

text \<open>\<open>reciprocal_chart\<close>, on the classes that are not inverse.\<close>

fun reciprocal_chart :: "trig_class \<Rightarrow> string" where
  "reciprocal_chart Sin = ''csc''"
| "reciprocal_chart Cos = ''sec''"
| "reciprocal_chart Tan = ''cot''"
| "reciprocal_chart Csc = ''sin''"
| "reciprocal_chart Sec = ''cos''"
| "reciprocal_chart Cot = ''tan''"
| "reciprocal_chart c = []"

text \<open>
  \<open>double_trigfunction_simplification_dict\<close>, at the keys that \<open>TrigFunction.simplify\<close>
  can form: \<open>"sin acos"\<close> is \<open>double_trig ''sin'' ''acos''\<close>, and \<open>None\<close> is no entry.
\<close>

definition one_minus_square :: "methods \<Rightarrow> expr \<Rightarrow> expr res" where
  "one_minus_square m x =
     bind (Prod_m m [Const (- 1), Power x (Const 2)]) (\<lambda>n. Sum_m m [Const 1, n])"

definition one_plus_square :: "methods \<Rightarrow> expr \<Rightarrow> expr res" where
  "one_plus_square m x = Sum_m m [Const 1, Power x (Const 2)]"

definition double_trig :: "string \<Rightarrow> string \<Rightarrow> (methods \<Rightarrow> expr \<Rightarrow> expr res) option" where
  "double_trig f l =
     (if f = ''sin'' \<and> l = ''acos'' then
        Some (\<lambda>m x. bind (one_minus_square m x) (\<lambda>s. Inr (sqrt_expr s)))
      else if f = ''sin'' \<and> l = ''atan'' then
        Some (\<lambda>m x. bind (one_plus_square m x) (\<lambda>s. truediv m x (sqrt_expr s)))
      else if f = ''cos'' \<and> l = ''asin'' then
        Some (\<lambda>m x. bind (one_minus_square m x) (\<lambda>s. Inr (sqrt_expr s)))
      else if f = ''cos'' \<and> l = ''atan'' then
        Some (\<lambda>m x. bind (one_plus_square m x) (\<lambda>s. truediv m (Const 1) (sqrt_expr s)))
      else if f = ''tan'' \<and> l = ''asin'' then
        Some (\<lambda>m x. bind (one_minus_square m x) (\<lambda>s. truediv m x (sqrt_expr s)))
      else if f = ''tan'' \<and> l = ''acos'' then
        Some (\<lambda>m x. bind (one_minus_square m x) (\<lambda>s. truediv m (sqrt_expr s) x))
      else None)"

definition TrigFunction_simplify :: "methods \<Rightarrow> trig_class \<Rightarrow> expr \<Rightarrow> expr res" where
  "TrigFunction_simplify m cls inner0 =
     bind (simplify_m m inner0) (\<lambda>inner.
       case inner of
         TrigFunction icls ii \<Rightarrow>
           if is_inverse icls \<noteq> is_inverse cls then
             (if trig_function icls = trig_function cls then Inr ii
              else if \<not> is_inverse cls then
                (if trig_function icls = reciprocal_chart cls then
                   bind (truediv m (Const 1) ii) (simplify_m m)
                 else if trig_function cls \<in> set [''sin'', ''cos'', ''tan''] then
                   (case double_trig (trig_function cls) (trig_label icls) of
                      None \<Rightarrow> Inl KeyError
                    | Some callable \<Rightarrow> bind (callable m ii) (simplify_m m))
                 else
                   (case double_trig (reciprocal_chart cls) (trig_label icls) of
                      None \<Rightarrow> Inl KeyError
                    | Some callable \<Rightarrow>
                        bind (callable m ii) (\<lambda>c. bind (truediv m (Const 1) c) (simplify_m m))))
              else Inr (TrigFunction cls inner))
           else Inr (TrigFunction cls inner)
       | _ \<Rightarrow> Inr (TrigFunction cls inner))"

text \<open>\<open>_SPECIAL_KEYS\<close>.\<close>

definition SPECIAL_KEYS :: "string list" where
  "SPECIAL_KEYS =
     [''0'', ''1/4'', ''1/3'', ''1/2'', ''2/3'', ''3/4'', ''1'', ''5/4'', ''4/3'', ''3/2'', ''5/3'',
      ''7/4'']"

text \<open>
  The expressions in the tables of special values, as Python builds them when the class is
  created: \<open>1/sqrt(2)\<close>, \<open>sqrt(3)/2\<close>, \<open>-1/sqrt(2)\<close>, \<open>-sqrt(3)/2\<close>, \<open>-Const(1)\<close> and
  \<open>-Const(0)\<close>, each with its terms in sorted order. None of them is simplified.
\<close>

definition one_over_sqrt2 :: expr where
  "one_over_sqrt2 = Prod [Const 1, Power (Power (Const 2) (Const (1 / 2))) (Const (- 1))]"

definition sqrt3_over_2 :: expr where
  "sqrt3_over_2 = Prod [Power (Const 2) (Const (- 1)), Power (Const 3) (Const (1 / 2))]"

definition minus_one_over_sqrt2 :: expr where
  "minus_one_over_sqrt2 = Prod [Const (- 1), Power (Power (Const 2) (Const (1 / 2))) (Const (- 1))]"

definition minus_sqrt3_over_2 :: expr where
  "minus_sqrt3_over_2 =
     Prod [Const (- 1), Power (Const 2) (Const (- 1)), Power (Const 3) (Const (1 / 2))]"

definition minus_Const :: "rat \<Rightarrow> expr" where
  "minus_Const v = Prod [Const (- 1), Const v]"

text \<open>\<open>Sin._special_values\<close>, as an association list in the order of the source.\<close>

definition Sin_special_values :: "(string \<times> expr) list" where
  "Sin_special_values =
     [(''0'', Const 0),
      (''1/4'', one_over_sqrt2),
      (''1/3'', sqrt3_over_2),
      (''1/2'', Const 1),
      (''2/3'', one_over_sqrt2),
      (''3/4'', sqrt3_over_2),
      (''1'', Const 0),
      (''5/4'', minus_one_over_sqrt2),
      (''4/3'', minus_sqrt3_over_2),
      (''3/2'', minus_Const 1),
      (''5/3'', minus_one_over_sqrt2),
      (''7/4'', minus_sqrt3_over_2)]"

text \<open>
  \<open>Cos._special_values\<close>. At four keys the source holds \<open>Fraction(1,2)\<close> or
  \<open>-Fraction(1,2)\<close>, which is not an \<open>Expr\<close>: \<open>None\<close> here, and \<open>Cos.simplify\<close> stops with
  \<open>NotAnExpr\<close> where the source returns that value.
\<close>

definition Cos_special_values :: "(string \<times> expr option) list" where
  "Cos_special_values =
     [(''0'', Some (Const 1)),
      (''1/4'', Some one_over_sqrt2),
      (''1/3'', None),
      (''1/2'', Some (Const 0)),
      (''2/3'', None),
      (''3/4'', Some minus_one_over_sqrt2),
      (''1'', Some (Const (- 1))),
      (''5/4'', Some minus_one_over_sqrt2),
      (''4/3'', None),
      (''3/2'', Some (minus_Const 0)),
      (''5/3'', None),
      (''7/4'', Some one_over_sqrt2)]"

text \<open>\<open>(new.inner / pi).simplify()\<close>, and \<open>str\<close> of it modulo 2 when it is a \<open>Const\<close>.\<close>

definition pi_coeff :: "methods \<Rightarrow> expr \<Rightarrow> expr res" where
  "pi_coeff m inner = bind (truediv m inner Pi) (simplify_m m)"

text \<open>\<open>Fraction.__mod__\<close>: the result has the sign of the divisor.\<close>

definition Fraction_mod :: "rat \<Rightarrow> rat \<Rightarrow> rat" where
  "Fraction_mod a b = a - b * of_int \<lfloor>a / b\<rfloor>"

definition special_key :: "expr \<Rightarrow> string option" where
  "special_key coeff =
     (case coeff of
        Const v \<Rightarrow>
          if str_Fraction (Fraction_mod v 2) \<in> set SPECIAL_KEYS
          then Some (str_Fraction (Fraction_mod v 2)) else None
      | _ \<Rightarrow> None)"

definition Sin_simplify :: "methods \<Rightarrow> expr \<Rightarrow> expr res" where
  "Sin_simplify m inner0 =
     bind (TrigFunction_simplify m Sin inner0) (\<lambda>new.
       case new of
         TrigFunction Sin inner \<Rightarrow>
           if inner = Const 0 then Inr (Const 0)
           else
             bind (pi_coeff m inner) (\<lambda>coeff.
               case special_key coeff of
                 Some key \<Rightarrow>
                   (case map_of Sin_special_values key of
                      Some v \<Rightarrow> Inr v
                    | None \<Rightarrow> Inl KeyError)
               | None \<Rightarrow> Inr new)
       | _ \<Rightarrow> Inr new)"

definition Cos_simplify :: "methods \<Rightarrow> expr \<Rightarrow> expr res" where
  "Cos_simplify m inner0 =
     bind (TrigFunction_simplify m Cos inner0) (\<lambda>new.
       case new of
         TrigFunction Cos inner \<Rightarrow>
           bind (case inner of Prod pts \<Rightarrow> is_subtraction pts | _ \<Rightarrow> Inr False)
             (\<lambda>subtraction.
               if subtraction then
                 bind (mul m inner (Const (- 1))) (\<lambda>p. bind (simplify_m m p) (\<lambda>q.
                   Inr (TrigFunction Cos q)))
               else if has_symbols inner then Inr new
               else if inner = Const 0 then Inr (Const 1)
               else
                 bind (repr_m m inner) (\<lambda>r.
                   if str_in ''pi'' r then
                     bind (pi_coeff m inner) (\<lambda>coeff.
                       case special_key coeff of
                         Some key \<Rightarrow>
                           (case map_of Cos_special_values key of
                              Some (Some v) \<Rightarrow> Inr v
                            | Some None \<Rightarrow> Inl NotAnExpr
                            | None \<Rightarrow> Inl KeyError)
                       | None \<Rightarrow> Inr new)
                   else Inr new))
       | _ \<Rightarrow> Inr new)"

definition Tan_simplify :: "methods \<Rightarrow> expr \<Rightarrow> expr res" where
  "Tan_simplify m inner0 =
     bind (TrigFunction_simplify m Tan inner0) (\<lambda>new.
       case new of
         TrigFunction Tan inner \<Rightarrow>
           if inner = Const 0 then Inr (Const 0)
           else
             bind (repr_m m inner) (\<lambda>r.
               if str_in ''pi'' r then
                 bind (pi_coeff m inner) (\<lambda>coeff.
                   case special_key coeff of
                     Some key \<Rightarrow>
                       bind (truediv m (TrigFunction Sin inner) (TrigFunction Cos inner))
                         (simplify_m m)
                   | None \<Rightarrow> Inr new)
               else Inr new)
       | _ \<Rightarrow> Inr new)"

definition Sec_simplify :: "methods \<Rightarrow> expr \<Rightarrow> expr res" where
  "Sec_simplify m inner0 =
     bind (TrigFunction_simplify m Sec inner0) (\<lambda>new.
       case new of
         TrigFunction Sec inner \<Rightarrow>
           bind (pi_coeff m inner) (\<lambda>coeff.
             case special_key coeff of
               Some key \<Rightarrow>
                 bind (truediv m (Const 1) (TrigFunction Cos inner)) (simplify_m m)
             | None \<Rightarrow> Inr new)
       | _ \<Rightarrow> Inr new)"

subsection \<open>\<open>simplify\<close> and \<open>__repr__\<close> by class\<close>

definition Expr_simplify ::
  "(rat \<Rightarrow> rat \<Rightarrow> rat option) \<Rightarrow> methods \<Rightarrow> expr \<Rightarrow> expr res" where
  "Expr_simplify float_pow m ex =
     (case ex of
        Sum ts \<Rightarrow> Sum_simplify m ts
      | Prod ts \<Rightarrow> Prod_simplify m ts
      | Power b x \<Rightarrow> Power_simplify float_pow m b x
      | Log inner \<Rightarrow> Log_simplify m inner
      | TrigFunction Sin inner \<Rightarrow> Sin_simplify m inner
      | TrigFunction Cos inner \<Rightarrow> Cos_simplify m inner
      | TrigFunction Tan inner \<Rightarrow> Tan_simplify m inner
      | TrigFunction Sec inner \<Rightarrow> Sec_simplify m inner
      | TrigFunction c inner \<Rightarrow> TrigFunction_simplify m c inner
      | _ \<Rightarrow> Inr ex)"

text \<open>
  The methods tied together. The first argument is the floating-point power of
  \<open>Power.simplify\<close>; the second bounds the depth of the calls between \<open>simplify\<close>,
  \<open>__repr__\<close> and the constructors, and \<open>OutOfFuel\<close> is the result when it is used up.
  \<open>Sum_new\<close> is \<open>Sum(terms)\<close> and \<open>Prod_new\<close> is \<open>Prod(terms)\<close>.
\<close>

fun simplify :: "(rat \<Rightarrow> rat \<Rightarrow> rat option) \<Rightarrow> nat \<Rightarrow> expr \<Rightarrow> expr res"
  and repr :: "(rat \<Rightarrow> rat \<Rightarrow> rat option) \<Rightarrow> nat \<Rightarrow> expr \<Rightarrow> string res"
  and Sum_new :: "(rat \<Rightarrow> rat \<Rightarrow> rat option) \<Rightarrow> nat \<Rightarrow> expr list \<Rightarrow> expr res"
  and Prod_new :: "(rat \<Rightarrow> rat \<Rightarrow> rat option) \<Rightarrow> nat \<Rightarrow> expr list \<Rightarrow> expr res"
  and Sum_flatten :: "(rat \<Rightarrow> rat \<Rightarrow> rat option) \<Rightarrow> nat \<Rightarrow> expr \<Rightarrow> expr res"
  and Prod_flatten :: "(rat \<Rightarrow> rat \<Rightarrow> rat option) \<Rightarrow> nat \<Rightarrow> expr \<Rightarrow> expr res"
  where
  "simplify fp 0 ex = Inl OutOfFuel"
| "simplify fp (Suc n) ex =
     Expr_simplify fp
       \<lparr>simplify_m = simplify fp n, repr_m = repr fp n,
        Sum_m = Sum_new fp n, Prod_m = Prod_new fp n\<rparr> ex"
| "repr fp 0 ex = Inl OutOfFuel"
| "repr fp (Suc n) ex =
     Expr_repr
       \<lparr>simplify_m = simplify fp n, repr_m = repr fp n,
        Sum_m = Sum_new fp n, Prod_m = Prod_new fp n\<rparr> ex"
| "Sum_new fp 0 ts = Inl OutOfFuel"
| "Sum_new fp (Suc n) ts = Associative_post_init is_Sum Sum (Sum_flatten fp n) (repr fp n) ts"
| "Prod_new fp 0 ts = Inl OutOfFuel"
| "Prod_new fp (Suc n) ts = Associative_post_init is_Prod Prod (Prod_flatten fp n) (repr fp n) ts"
| "Sum_flatten fp 0 ex = Inl OutOfFuel"
| "Sum_flatten fp (Suc n) ex = Associative_flatten is_Sum (Sum_flatten fp n) (Sum_new fp n) ex"
| "Prod_flatten fp 0 ex = Inl OutOfFuel"
| "Prod_flatten fp (Suc n) ex = Associative_flatten is_Prod (Prod_flatten fp n) (Prod_new fp n) ex"

text \<open>The record of the methods at a depth, for the functions that are not methods.\<close>

definition methods_at :: "(rat \<Rightarrow> rat \<Rightarrow> rat option) \<Rightarrow> nat \<Rightarrow> methods" where
  "methods_at fp n =
     \<lparr>simplify_m = simplify fp n, repr_m = repr fp n,
      Sum_m = Sum_new fp n, Prod_m = Prod_new fp n\<rparr>"

subsection \<open>\<open>==\<close> on expressions\<close>

text \<open>
  \<open>a == b\<close> as Python resolves it. \<open>Const\<close>, \<open>E\<close> and \<open>Symbol\<close> define \<open>__eq__\<close>
  themselves (an \<open>isinstance\<close> test and the comparison of \<open>value\<close> or \<open>name\<close>); for \<open>Pi\<close>,
  \<open>Sum\<close>, \<open>Prod\<close>, \<open>Power\<close> and the subclasses of \<open>SingleFunc\<close> the dataclass generates
  it: the classes are the same and the fields are \<open>==\<close>, and \<open>NotImplemented\<close> otherwise,
  which ends in \<open>False\<close> for two different objects. Two lists are \<open>==\<close> when they have the
  same length and their elements are \<open>==\<close>.
\<close>

fun expr_eq :: "expr \<Rightarrow> expr \<Rightarrow> bool"
  and exprs_eq :: "expr list \<Rightarrow> expr list \<Rightarrow> bool" where
  "expr_eq (Const a) (Const b) = (a = b)"
| "expr_eq Pi Pi = True"
| "expr_eq E E = True"
| "expr_eq (Symbol a) (Symbol b) = (a = b)"
| "expr_eq (Sum as) (Sum bs) = exprs_eq as bs"
| "expr_eq (Prod as) (Prod bs) = exprs_eq as bs"
| "expr_eq (Power b1 x1) (Power b2 x2) = (expr_eq b1 b2 \<and> expr_eq x1 x2)"
| "expr_eq (Log a) (Log b) = expr_eq a b"
| "expr_eq (TrigFunction c a) (TrigFunction d b) = (c = d \<and> expr_eq a b)"
| "expr_eq a b = False"
| "exprs_eq [] [] = True"
| "exprs_eq (a # as) (b # bs) = (expr_eq a b \<and> exprs_eq as bs)"
| "exprs_eq as bs = False"

subsection \<open>The real number an expression stands for\<close>

text \<open>
  The mathematical value of an expression on the reals, for a valuation of the symbols,
  as the specification uses the word: a power is the real power of a positive base, and
  \<open>Log\<close> is the natural logarithm.
\<close>

fun trig_value :: "trig_class \<Rightarrow> real \<Rightarrow> real" where
  "trig_value Sin t = sin t"
| "trig_value Cos t = cos t"
| "trig_value Tan t = tan t"
| "trig_value Csc t = 1 / sin t"
| "trig_value Sec t = 1 / cos t"
| "trig_value Cot t = cot t"
| "trig_value ArcSin t = arcsin t"
| "trig_value ArcCos t = arccos t"
| "trig_value ArcTan t = arctan t"

fun real_value :: "(string \<Rightarrow> real) \<Rightarrow> expr \<Rightarrow> real" where
  "real_value env (Const q) = of_rat q"
| "real_value env Pi = pi"
| "real_value env E = exp 1"
| "real_value env (Symbol s) = env s"
| "real_value env (Sum ts) = sum_list (map (real_value env) ts)"
| "real_value env (Prod ts) = prod_list (map (real_value env) ts)"
| "real_value env (Power b x) = real_value env b powr real_value env x"
| "real_value env (Log i) = ln (real_value env i)"
| "real_value env (TrigFunction c i) = trig_value c (real_value env i)"

subsection \<open>\<open>diff\<close>\<close>

text \<open>
  Each term of a product with the other terms (\<open>[t for t in self.terms if t is not e]\<close>):
  expressions are values here, so the terms of a product count as different objects and
  \<open>is not\<close> removes the one position.
\<close>

fun each_with_others :: "'a list \<Rightarrow> 'a list \<Rightarrow> ('a \<times> 'a list) list" where
  "each_with_others seen [] = []"
| "each_with_others seen (x # xs) = (x, seen @ xs) # each_with_others (seen @ [x]) xs"

text \<open>
  The \<open>diff\<close> method of every class, by the name of the variable. The second argument
  bounds the depth of the calls, as for \<open>simplify\<close>: \<open>Csc.diff\<close> and \<open>Cot.diff\<close>
  differentiate an expression that they build. \<open>Power.diff\<close> raises
  \<open>NotImplementedError\<close> when the variable is in the base and in the exponent.
  \<open>Prod.diff\<close> leaves out of each product every term that is the same object as the
  differentiated one (\<open>t is not e\<close>); expressions are values here, and the term at the
  same position is left out. The two agree where no object occurs twice among the terms
  of a product.
\<close>

fun diff :: "(rat \<Rightarrow> rat \<Rightarrow> rat option) \<Rightarrow> nat \<Rightarrow> expr \<Rightarrow> string \<Rightarrow> expr res" where
  "diff fp 0 ex v = Inl OutOfFuel"
| "diff fp (Suc n) (Const c) v = Inr (Const 0)"
| "diff fp (Suc n) Pi v = Inr (Const 0)"
| "diff fp (Suc n) E v = Inr (Const 0)"
| "diff fp (Suc n) (Symbol s) v = Inr (if s = v then Const 1 else Const 0)"
| "diff fp (Suc n) (Sum ts) v =
     bind (map_res (\<lambda>e. diff fp n e v) ts) (Sum_new fp n)"
| "diff fp (Suc n) (Prod ts) v =
     bind (map_res (\<lambda>(e, others). bind (diff fp n e v) (\<lambda>d. Prod_new fp n (d # others)))
             (each_with_others [] ts))
       (Sum_new fp n)"
| "diff fp (Suc n) (Power b x) v =
     (if \<not> contains x v then
        bind (sub (methods_at fp n) x (Const 1)) (\<lambda>x1.
        bind (mul (methods_at fp n) x (Power b x1)) (\<lambda>p.
        bind (diff fp n b v) (\<lambda>db. mul (methods_at fp n) p db)))
      else if \<not> contains b v then
        bind (mul (methods_at fp n) (Log b) (Power b x)) (\<lambda>p.
        bind (diff fp n x v) (\<lambda>dx. mul (methods_at fp n) p dx))
      else Inl NotImplementedError)"
| "diff fp (Suc n) (Log i) v =
     bind (diff fp n i v) (\<lambda>d. truediv (methods_at fp n) d i)"
| "diff fp (Suc n) (TrigFunction Sin i) v =
     bind (diff fp n i v) (\<lambda>d. mul (methods_at fp n) (TrigFunction Cos i) d)"
| "diff fp (Suc n) (TrigFunction Cos i) v =
     bind (neg (methods_at fp n) (TrigFunction Sin i)) (\<lambda>ns.
     bind (diff fp n i v) (\<lambda>d. mul (methods_at fp n) ns d))"
| "diff fp (Suc n) (TrigFunction Tan i) v =
     bind (diff fp n i v) (\<lambda>d.
       mul (methods_at fp n) (Power (TrigFunction Sec i) (Const 2)) d)"
| "diff fp (Suc n) (TrigFunction Csc i) v =
     bind (truediv (methods_at fp n) (Const 1) (TrigFunction Sin i)) (\<lambda>q. diff fp n q v)"
| "diff fp (Suc n) (TrigFunction Sec i) v =
     bind (mul (methods_at fp n) (TrigFunction Sec i) (TrigFunction Tan i)) (\<lambda>p.
     bind (diff fp n i v) (\<lambda>d. mul (methods_at fp n) p d))"
| "diff fp (Suc n) (TrigFunction Cot i) v =
     bind (truediv (methods_at fp n) (Const 1) (TrigFunction Tan i)) (\<lambda>q. diff fp n q v)"
| "diff fp (Suc n) (TrigFunction ArcSin i) v =
     bind (one_minus_square (methods_at fp n) i) (\<lambda>s.
     bind (truediv (methods_at fp n) (Const 1) (sqrt_expr s)) (\<lambda>q.
     bind (diff fp n i v) (\<lambda>d. mul (methods_at fp n) q d)))"
| "diff fp (Suc n) (TrigFunction ArcCos i) v =
     bind (one_minus_square (methods_at fp n) i) (\<lambda>s.
     bind (truediv (methods_at fp n) (Const (- 1)) (sqrt_expr s)) (\<lambda>q.
     bind (diff fp n i v) (\<lambda>d. mul (methods_at fp n) q d)))"
| "diff fp (Suc n) (TrigFunction ArcTan i) v =
     bind (one_plus_square (methods_at fp n) i) (\<lambda>s.
     bind (truediv (methods_at fp n) (Const 1) s) (\<lambda>q.
     bind (diff fp n i v) (\<lambda>d. mul (methods_at fp n) q d)))"

section \<open>Helpers of the transforms (src/src/simpy/transforms.py)\<close>


text \<open>\<open>count(expr, query)\<close>.\<close>

fun count :: "expr \<Rightarrow> expr \<Rightarrow> nat" where
  "count (Sum ts) query =
     (if Sum ts = query then 1 else sum_list (map (\<lambda>e. count e query) ts))"
| "count (Prod ts) query =
     (if Prod ts = query then 1 else sum_list (map (\<lambda>e. count e query) ts))"
| "count (Power b x) query =
     (if Power b x = query then 1 else count b query + count x query)"
| "count (Log i) query = (if Log i = query then 1 else count i query)"
| "count (TrigFunction c i) query =
     (if TrigFunction c i = query then 1 else count i query)"
| "count ex query = (if ex = query then 1 else 0)"

subsection \<open>The table of elementary antiderivatives\<close>




section \<open>The search tree (src/src/simpy/transforms.py)\<close>

datatype node_type = AND | OR | UNSET | SOLUTION | FAILURE

text \<open>
  The subclasses of \<open>Transform\<close>. The last four are the heuristics of the older
  src/transforms.py.
\<close>

datatype transform_class =
    PullConstant | PolynomialDivision | Expand | Additivity | TrigUSub2 | RewriteTrig
  | InverseTrigUSub | PolynomialUSub | LinearUSub | CompoundAngle | SinUSub | ProductToSum
  | ByParts | PartialFractions | GenericUSub
  | B_Tan | A | C_Sin | C_Tan

text \<open>
  A \<open>Node\<close> with the subtree below it. The \<open>parent\<close> back reference is not part of the
  value: the functions of this section only look downwards. The selectors are the
  attributes of the class, with \<open>node_\<close> before their names.
\<close>

datatype node = Node
  (node_expr: expr)
  (node_var: string)
  (node_transform: "transform_class option")
  (node_children: "node list")
  (node_type: node_type)
  (node_solution: "expr option")

text \<open>
  \<open>Node(expr, var, transform, parent, children, type, solution)\<close>: the dataclass stores
  its arguments and \<open>__post_init__\<close> replaces \<open>expr\<close> by \<open>expr.simplify()\<close> and a
  \<open>children\<close> that is \<open>None\<close> by the empty list.
\<close>

definition Node_new ::
  "(rat \<Rightarrow> rat \<Rightarrow> rat option) \<Rightarrow> nat \<Rightarrow> expr \<Rightarrow> string \<Rightarrow> transform_class option
     \<Rightarrow> node list option \<Rightarrow> node_type \<Rightarrow> expr option \<Rightarrow> node res" where
  "Node_new fp n ex v tr cs ty sol =
     bind (simplify fp n ex) (\<lambda>ex'.
       Inr (Node ex' v tr (case cs of None \<Rightarrow> [] | Some c \<Rightarrow> c) ty sol))"

text \<open>
  \<open>Node.is_solved\<close>. The source returns \<open>None\<close> when no branch applies (a \<open>FAILURE\<close>
  node that has children); every caller uses the result as a truth value, where \<open>None\<close>
  counts as false, so the last branch is \<open>False\<close>.
\<close>

fun is_solved :: "node \<Rightarrow> bool" where
  "is_solved (Node ex v tr cs ty sol) =
     (if ty = SOLUTION then True
      else if cs = [] then False
      else if ty = AND \<or> ty = UNSET then list_all is_solved cs
      else if ty = OR then list_ex is_solved cs
      else False)"

text \<open>\<open>Node.is_failed\<close>.\<close>

fun is_failed :: "node \<Rightarrow> bool" where
  "is_failed (Node ex v tr cs ty sol) =
     (if ty = FAILURE then True
      else if cs = [] then False
      else if ty = OR then list_all is_failed cs
      else list_ex is_failed cs)"

definition is_finished :: "node \<Rightarrow> bool" where
  "is_finished n = (is_solved n \<or> is_failed n)"


subsection \<open>The transform \<open>ByParts\<close>\<close>

text \<open>
  An entry \<open>(u, du, v, dv)\<close> of \<open>ByParts._stuff\<close>. For a bare \<open>log\<close> or inverse
  trigonometric function the source stores the \<open>int\<close> 1 as \<open>dv\<close>, which is never read;
  it is \<open>Const 1\<close> here.
\<close>

type_synonym parts = "expr \<times> expr \<times> expr \<times> expr"




text \<open>\<open>funky_node.children = [...]\<close>.\<close>

definition set_children :: "node \<Rightarrow> node list \<Rightarrow> node" where
  "set_children nd cs =
     Node (node_expr nd) (node_var nd) (node_transform nd) cs (node_type nd) (node_solution nd)"



section \<open>The first scheduler (src/transforms.py)\<close>

text \<open>
  The older file src/transforms.py holds the search loop \<open>Integration.integrate\<close>. It
  imports everything from a module \<open>main\<close> that is not among the sources: the classes of
  the expressions and the helper functions. The expressions are taken to be the ones
  above, with \<open>simplify\<close>, \<open>__repr__\<close> and the constructors of \<open>Sum\<close> and \<open>Prod\<close> given as a
  record of \<open>methods\<close>; what else the file uses from \<open>main\<close> is a field of the record
  \<open>main_module\<close>. Three fields stand for the part of a transform that is built from
  such helpers only: the new integrand and the new variable of a substitution
  (\<open>replace\<close>, \<open>generate_intermediate_var\<close>), the three rewritings of \<open>A.forward\<close>
  (\<open>replace_class\<close>), and the polynomial quotient of \<open>PolynomialDivision\<close>
  (\<open>to_polynomial\<close>, \<open>polynomial_to_expr\<close>, \<open>numpy\<close>), which is \<open>None\<close> where \<open>check\<close>
  answers \<open>False\<close>.
\<close>

record main_module =
  expandable_f :: "expr \<Rightarrow> bool res"
  expand_f :: "expr \<Rightarrow> expr res"
  symbols_f :: "expr \<Rightarrow> string list res"
  polynomial_division_f :: "expr \<Rightarrow> string \<Rightarrow> expr option res"
  contains_Tan_f :: "expr \<Rightarrow> bool res"
  contains_TrigFunction_f :: "expr \<Rightarrow> bool res"
  count_f :: "expr \<Rightarrow> expr \<Rightarrow> nat res"
  B_Tan_integrand_f :: "expr \<Rightarrow> string \<Rightarrow> (expr \<times> string) res"
  A_rewrites_f :: "expr \<Rightarrow> (expr \<times> expr \<times> expr) res"
  C_Sin_integrand_f :: "expr \<Rightarrow> string \<Rightarrow> (expr \<times> string) res"
  C_Tan_integrand_f :: "expr \<Rightarrow> string \<Rightarrow> (expr \<times> string) res"
  nesting_f :: "expr \<Rightarrow> string \<Rightarrow> nat res"

text \<open>
  \<open>Node(expr, var, transform, parent)\<close> in this file: \<open>__post_init__\<close> simplifies the
  expression, the type is \<open>UNSET\<close>, and \<open>children\<close> stays \<open>None\<close>, which every reader of the
  attribute treats as the empty list.
\<close>

definition Node_init :: "methods \<Rightarrow> expr \<Rightarrow> string \<Rightarrow> transform_class option \<Rightarrow> node res" where
  "Node_init m ex v tr = bind (simplify_m m ex) (\<lambda>ex'. Inr (Node ex' v tr [] UNSET None))"

text \<open>\<open>node.children = cs\<close> and \<open>node.type = ty\<close>.\<close>

definition set_type :: "node \<Rightarrow> node_type \<Rightarrow> node" where
  "set_type nd ty =
     Node (node_expr nd) (node_var nd) (node_transform nd) (node_children nd) ty
       (node_solution nd)"

subsection \<open>The transforms\<close>

text \<open>
  An instance \<open>tr = transform()\<close>: its \<open>check\<close>, and its \<open>forward\<close> as the node after
  the call. \<open>forward\<close> runs right after \<open>check\<close> on the same node, so what \<open>check\<close> has
  stored in the instance is computed from the node once more.
\<close>

record transform =
  tr_check :: "node \<Rightarrow> bool res"
  tr_forward :: "node \<Rightarrow> node res"

definition Additivity_tr :: "methods \<Rightarrow> transform" where
  "Additivity_tr m =
     \<lparr>tr_check = (\<lambda>nd. Inr (is_Sum (node_expr nd))),
      tr_forward = (\<lambda>nd.
        case node_expr nd of
          Sum ts \<Rightarrow>
            bind (map_res (\<lambda>e. Node_init m e (node_var nd) (Some Additivity)) ts) (\<lambda>cs.
              Inr (set_children (set_type nd AND) cs))
        | _ \<Rightarrow> Inl AttributeError)\<rparr>"

text \<open>
  \<open>PullConstant.check\<close>: \<open>_constant\<close> and \<open>_non_constant_part\<close> when it answers \<open>True\<close>.
  The loop goes over the terms with those before the current one in \<open>seen\<close>.
\<close>

fun PullConstant_loop ::
  "methods \<Rightarrow> string \<Rightarrow> expr list \<Rightarrow> expr list \<Rightarrow> (expr \<times> expr) option res" where
  "PullConstant_loop m var seen [] = Inr None"
| "PullConstant_loop m var seen (term # after) =
     (if (case term of
            Symbol s \<Rightarrow> s \<noteq> var
          | Power (Symbol s) x \<Rightarrow> s \<noteq> var
          | _ \<Rightarrow> False)
      then bind (Prod_m m (seen @ after)) (\<lambda>p. bind (simplify_m m p) (\<lambda>q.
             Inr (Some (term, q))))
      else PullConstant_loop m var (seen @ [term]) after)"

definition PullConstant_parts :: "methods \<Rightarrow> node \<Rightarrow> (expr \<times> expr) option res" where
  "PullConstant_parts m nd =
     (case node_expr nd of
        Prod ts \<Rightarrow>
          (case ts of
             [] \<Rightarrow> Inl IndexError
           | t0 # rest \<Rightarrow>
               if is_Const t0 then
                 bind (Prod_m m rest) (\<lambda>p. bind (simplify_m m p) (\<lambda>q. Inr (Some (t0, q))))
               else PullConstant_loop m (node_var nd) [] ts)
      | _ \<Rightarrow> Inr None)"

definition PullConstant_tr :: "methods \<Rightarrow> transform" where
  "PullConstant_tr m =
     \<lparr>tr_check = (\<lambda>nd. bind (PullConstant_parts m nd) (\<lambda>r. Inr (r \<noteq> None))),
      tr_forward = (\<lambda>nd.
        bind (PullConstant_parts m nd) (\<lambda>r.
          case r of
            None \<Rightarrow> Inl AttributeError
          | Some (constant, non_constant_part) \<Rightarrow>
              bind (Node_init m non_constant_part (node_var nd) (Some PullConstant)) (\<lambda>c.
                Inr (set_children nd [c]))))\<rparr>"

definition Expand_tr :: "methods \<Rightarrow> main_module \<Rightarrow> transform" where
  "Expand_tr m h =
     \<lparr>tr_check = (\<lambda>nd. expandable_f h (node_expr nd)),
      tr_forward = (\<lambda>nd.
        bind (expand_f h (node_expr nd)) (\<lambda>e.
        bind (Node_init m e (node_var nd) (Some Expand)) (\<lambda>c.
          Inr (set_children nd [c]))))\<rparr>"

text \<open>
  \<open>PolynomialDivision\<close>: the first two tests of \<open>check\<close> are on the symbols and on the
  class of the expression; the rest of \<open>check\<close> and the quotient that \<open>forward\<close> computes
  are \<open>polynomial_division_f\<close>.
\<close>

definition PolynomialDivision_tr :: "methods \<Rightarrow> main_module \<Rightarrow> transform" where
  "PolynomialDivision_tr m h =
     \<lparr>tr_check = (\<lambda>nd.
        bind (symbols_f h (node_expr nd)) (\<lambda>ss.
          if ss \<noteq> [node_var nd] then Inr False
          else if \<not> is_Prod (node_expr nd) then Inr False
          else bind (polynomial_division_f h (node_expr nd) (node_var nd)) (\<lambda>r.
                 Inr (r \<noteq> None)))),
      tr_forward = (\<lambda>nd.
        bind (polynomial_division_f h (node_expr nd) (node_var nd)) (\<lambda>r.
          case r of
            None \<Rightarrow> Inl AttributeError
          | Some answer \<Rightarrow>
              bind (Node_init m answer (node_var nd) (Some PolynomialDivision)) (\<lambda>c.
                Inr (set_children nd [c]))))\<rparr>"

definition B_Tan_tr :: "methods \<Rightarrow> main_module \<Rightarrow> transform" where
  "B_Tan_tr m h =
     \<lparr>tr_check = (\<lambda>nd.
        bind (contains_Tan_f h (node_expr nd)) (\<lambda>c.
          if \<not> c then Inr False
          else
            bind (count_f h (node_expr nd) (TrigFunction Tan (Symbol (node_var nd)))) (\<lambda>a.
            bind (count_f h (node_expr nd) (Symbol (node_var nd))) (\<lambda>b. Inr (a = b))))),
      tr_forward = (\<lambda>nd.
        bind (B_Tan_integrand_f h (node_expr nd) (node_var nd))
          (\<lambda>(new_integrand, intermediate).
        bind (Node_init m new_integrand intermediate (Some B_Tan)) (\<lambda>c.
          Inr (set_children nd [c]))))\<rparr>"

text \<open>
  The loop of \<open>A.forward\<close> that removes from \<open>stuff\<close>, while it iterates over it, the
  things printed like the expression: the iteration goes by position, and
  \<open>stuff.remove(thing)\<close> takes out the first element equal to \<open>thing\<close>.
\<close>

function remove_same_repr ::
  "(expr \<Rightarrow> string res) \<Rightarrow> expr \<Rightarrow> nat \<Rightarrow> expr list \<Rightarrow> expr list res" where
  "remove_same_repr rp ex i stuff =
     (if i < length stuff then
        bind (rp (stuff ! i)) (\<lambda>r. bind (rp ex) (\<lambda>s.
          if r = s then remove_same_repr rp ex (Suc i) (remove1 (stuff ! i) stuff)
          else remove_same_repr rp ex (Suc i) stuff))
      else Inr stuff)"
  by pat_completeness auto

termination remove_same_repr
  by (relation "measure (\<lambda>(rp, ex, i, stuff). length stuff - i)")
     (auto simp: length_remove1)

declare remove_same_repr.simps [simp del]

definition A_tr :: "methods \<Rightarrow> main_module \<Rightarrow> transform" where
  "A_tr m h =
     \<lparr>tr_check = (\<lambda>nd.
        if node_transform nd = Some A then Inr False
        else contains_TrigFunction_f h (node_expr nd)),
      tr_forward = (\<lambda>nd.
        bind (A_rewrites_f h (node_expr nd)) (\<lambda>(r1, r2, r3).
        bind (remove_same_repr (repr_m m) (node_expr nd) 0 [r1, r2, r3]) (\<lambda>stuff.
        bind (map_res (\<lambda>option. Node_init m option (node_var nd) (Some A)) stuff) (\<lambda>cs.
          Inr (set_type (set_children nd cs) OR)))))\<rparr>"

definition C_Sin_tr :: "methods \<Rightarrow> main_module \<Rightarrow> transform" where
  "C_Sin_tr m h =
     \<lparr>tr_check = (\<lambda>nd.
        bind (repr_m m (node_expr nd)) (\<lambda>r.
          Inr (str_in (''(1 + (-1 * '' @ node_var nd @ ''^2))'') r))),
      tr_forward = (\<lambda>nd.
        bind (C_Sin_integrand_f h (node_expr nd) (node_var nd))
          (\<lambda>(new_thing, intermediate_var).
        bind (Node_init m new_thing intermediate_var (Some C_Sin)) (\<lambda>c.
          Inr (set_children nd [c]))))\<rparr>"

definition C_Tan_tr :: "methods \<Rightarrow> main_module \<Rightarrow> transform" where
  "C_Tan_tr m h =
     \<lparr>tr_check = (\<lambda>nd.
        bind (repr_m m (node_expr nd)) (\<lambda>r.
          Inr (str_in (''1 + '' @ node_var nd @ ''^2'') r))),
      tr_forward = (\<lambda>nd.
        bind (C_Tan_integrand_f h (node_expr nd) (node_var nd))
          (\<lambda>(new_thing, intermediate).
        bind (Node_init m new_thing intermediate (Some C_Tan)) (\<lambda>c.
          Inr (set_children nd [c]))))\<rparr>"

definition HEURISTICS :: "methods \<Rightarrow> main_module \<Rightarrow> transform list" where
  "HEURISTICS m h = [B_Tan_tr m h, A_tr m h, C_Sin_tr m h, C_Tan_tr m h]"

definition SAFE_TRANSFORMS :: "methods \<Rightarrow> main_module \<Rightarrow> transform list" where
  "SAFE_TRANSFORMS m h =
     [Additivity_tr m, PullConstant_tr m, Expand_tr m h, PolynomialDivision_tr m h]"

subsection \<open>The table and the two passes\<close>

text \<open>\<open>_check_if_solvable(node)\<close>: the node after the call.\<close>

definition check_if_solvable_answer :: "methods \<Rightarrow> node \<Rightarrow> expr option res" where
  "check_if_solvable_answer m nd =
     (case node_expr nd of
        Power b x \<Rightarrow>
          if b = Symbol (node_var nd) \<and> is_Const x then
            (if x \<noteq> Const (- 1) then
               bind (add m x (Const 1)) (\<lambda>n1.
               bind (truediv m (Const 1) n1) (\<lambda>q.
               bind (add m x (Const 1)) (\<lambda>n1'.
               bind (mul m q (Power (Symbol (node_var nd)) n1')) (\<lambda>a. Inr (Some a)))))
             else Inr (Some (Log b)))
          else if (case b of Symbol s \<Rightarrow> s \<noteq> node_var nd | _ \<Rightarrow> False) then
            bind (mul m (node_expr nd) (Symbol (node_var nd))) (\<lambda>a. Inr (Some a))
          else Inr None
      | Symbol s \<Rightarrow>
          if s = node_var nd then
            bind (mul m (Const (1 / 2)) (Power (Symbol (node_var nd)) (Const 2))) (\<lambda>a.
              Inr (Some a))
          else bind (mul m (node_expr nd) (Symbol (node_var nd))) (\<lambda>a. Inr (Some a))
      | Const c \<Rightarrow> bind (mul m (node_expr nd) (Symbol (node_var nd))) (\<lambda>a. Inr (Some a))
      | _ \<Rightarrow> Inr None)"

definition check_if_solvable :: "methods \<Rightarrow> node \<Rightarrow> node res" where
  "check_if_solvable m nd =
     bind (check_if_solvable_answer m nd) (\<lambda>answer.
       case answer of
         None \<Rightarrow> Inr nd
       | Some a \<Rightarrow>
           Inr (Node (node_expr nd) (node_var nd) (node_transform nd) (node_children nd)
                  SOLUTION (Some a)))"

text \<open>
  \<open>_integrate_safely(node)\<close>: the node after the call. \<open>safe_loop\<close> is the loop over the
  transforms that are left; the first argument bounds the depth of the calls on the
  children.
\<close>

fun integrate_safely :: "nat \<Rightarrow> transform list \<Rightarrow> node \<Rightarrow> node res"
  and safe_loop :: "nat \<Rightarrow> transform list \<Rightarrow> transform list \<Rightarrow> node \<Rightarrow> node res" where
  "integrate_safely 0 safe nd = Inl OutOfFuel"
| "integrate_safely (Suc k) safe nd = safe_loop k safe safe nd"
| "safe_loop k safe [] nd = Inr nd"
| "safe_loop k safe (tr # trs) nd =
     bind (tr_check tr nd) (\<lambda>c.
       if c then
         bind (tr_forward tr nd) (\<lambda>nd1.
         bind (map_res (integrate_safely k safe) (node_children nd1)) (\<lambda>cs.
           safe_loop k safe trs (set_children nd1 cs)))
       else safe_loop k safe trs nd)"

text \<open>\<open>_integrate_heuristically(node)\<close>: the loop, and the node after the call.\<close>

fun heuristic_loop :: "transform list \<Rightarrow> node \<Rightarrow> node res" where
  "heuristic_loop [] nd = Inr nd"
| "heuristic_loop (tr # trs) nd =
     bind (tr_check tr nd) (\<lambda>c.
       if c then bind (tr_forward tr nd) (heuristic_loop trs)
       else heuristic_loop trs nd)"

definition integrate_heuristically :: "transform list \<Rightarrow> node \<Rightarrow> node res" where
  "integrate_heuristically heuristics nd =
     bind (heuristic_loop heuristics nd) (\<lambda>nd1.
       if node_children nd1 = [] then Inr (set_type nd1 FAILURE)
       else if length (node_children nd1) > 1 then Inr (set_type nd1 OR)
       else Inr nd1)"

subsection \<open>Nodes inside the tree\<close>

text \<open>
  The source holds references to the nodes of one tree and follows \<open>parent\<close> upwards.
  Here a node inside the tree is named by its path from the root, the positions to take
  in the lists of children; its parent is named by the path without the last position.
\<close>

type_synonym path = "nat list"

fun subtree :: "node \<Rightarrow> path \<Rightarrow> node option" where
  "subtree nd [] = Some nd"
| "subtree nd (i # p) =
     (if i < length (node_children nd) then subtree (node_children nd ! i) p else None)"

text \<open>The tree after the node at the path has been changed into \<open>new\<close>.\<close>

fun put_subtree :: "node \<Rightarrow> path \<Rightarrow> node \<Rightarrow> node" where
  "put_subtree nd [] new = new"
| "put_subtree nd (i # p) new =
     (if i < length (node_children nd)
      then set_children nd
             ((node_children nd)[i := put_subtree (node_children nd ! i) p new])
      else nd)"

text \<open>\<open>Node.leaves\<close>, each leaf with its path from the node.\<close>

fun leaves :: "node \<Rightarrow> (path \<times> node) list"
  and leaves_from :: "nat \<Rightarrow> node list \<Rightarrow> (path \<times> node) list" where
  "leaves (Node ex v tr cs ty sol) =
     (if cs = [] then [([], Node ex v tr cs ty sol)] else leaves_from 0 cs)"
| "leaves_from i [] = []"
| "leaves_from i (c # cs) = map (\<lambda>(p, l). (i # p, l)) (leaves c) @ leaves_from (Suc i) cs"

definition unfinished_leaves :: "node \<Rightarrow> (path \<times> node) list" where
  "unfinished_leaves nd = filter (\<lambda>(p, l). \<not> is_finished l) (leaves nd)"

text \<open>\<open>Node.unsolved_children\<close>, each child with its position.\<close>

definition unsolved_children :: "node \<Rightarrow> (nat \<times> node) list" where
  "unsolved_children nd = filter (\<lambda>(i, c). \<not> is_solved c) (enumerate 0 (node_children nd))"

text \<open>
  \<open>_get_node_with_best_nesting(nodes, fn)\<close>: \<open>fn\<close> is \<open>min\<close> or \<open>max\<close>, and the first node
  with the best value is returned. \<open>min\<close> and \<open>max\<close> raise \<open>ValueError\<close> on an empty list.
\<close>

definition get_node_with_best_nesting ::
  "main_module \<Rightarrow> bool \<Rightarrow> (path \<times> node) list \<Rightarrow> (path \<times> node) res" where
  "get_node_with_best_nesting h use_min nodes =
     bind (map_res (\<lambda>(p, n). nesting_f h (node_expr n) (node_var n)) nodes) (\<lambda>results.
       case results of
         [] \<Rightarrow> Inl ValueError
       | r # rs \<Rightarrow>
           (case find (\<lambda>(x, v). v = fold (if use_min then min else max) rs r)
                   (zip nodes results) of
              Some (x, v) \<Rightarrow> Inr x
            | None \<Rightarrow> Inl ValueError))"

lemma unsolved_children_size:
  "(i, c) \<in> set (unsolved_children nd) \<Longrightarrow> size c < size nd"
proof -
  assume "(i, c) \<in> set (unsolved_children nd)"
  then have "c \<in> set (node_children nd)"
    by (auto simp: unsolved_children_def in_set_enumerate_eq)
  then show ?thesis
    by (cases nd) (auto simp: less_Suc_eq_le size_list_estimation')
qed

text \<open>\<open>_nesting_node(node)\<close>: the node it returns, with its path from \<open>node\<close>.\<close>

function nesting_node :: "main_module \<Rightarrow> node \<Rightarrow> (path \<times> node) res" where
  "nesting_node h nd =
     (case unsolved_children nd of
        [] \<Rightarrow> Inr ([], nd)
      | [(i, c)] \<Rightarrow> bind (nesting_node h c) (\<lambda>(p, n). Inr (i # p, n))
      | ic # ic' # ics \<Rightarrow>
          if list_all (\<lambda>(i, c). unsolved_children c = []) (unsolved_children nd) then
            get_node_with_best_nesting h (node_type nd = OR)
              (map (\<lambda>(i, c). ([i], c)) (unsolved_children nd))
          else
            bind (map_res (\<lambda>(i, c). bind (nesting_node h c) (\<lambda>(p, n). Inr (i # p, n)))
                    (unsolved_children nd))
              (get_node_with_best_nesting h (node_type nd = OR)))"
  by pat_completeness auto

termination nesting_node
  by (relation "measure (\<lambda>(h, nd). size nd)") (auto intro: unsolved_children_size)

declare nesting_node.simps [simp del]

text \<open>
  The loop of \<open>_get_next_node_post_heuristic\<close> that climbs from \<open>parent\<close> to the lowest
  node with more than one child that is not an \<open>AND\<close> node: \<open>None\<close> when it reaches the
  root first.
\<close>

function climb :: "node \<Rightarrow> path \<Rightarrow> path option res" where
  "climb rt p =
     (case subtree rt p of
        None \<Rightarrow> Inl NoSuchNode
      | Some parent \<Rightarrow>
          if length (node_children parent) = 1 \<or> node_type parent = AND then
            (if p = [] then Inr None else climb rt (butlast p))
          else Inr (Some p))"
  by pat_completeness auto

termination climb
  by (relation "measure (\<lambda>(rt, p). length p)") auto

declare climb.simps [simp del]

lemma climb_length: "climb rt p = Inr (Some r) \<Longrightarrow> length r \<le> length p"
proof (induction rt p rule: climb.induct)
  case (1 rt p)
  then show ?case
    by (subst (asm) (2) climb.simps) (auto split: option.splits if_splits)
qed

text \<open>
  \<open>_get_next_node_post_heuristic(node)\<close> for the node at the path \<open>q\<close> of the tree: the
  path of the node it returns, or \<open>None\<close>. The parent of the root is \<open>None\<close>, and
  \<open>parent.children\<close> raises \<open>AttributeError\<close> on it.
\<close>

function get_next_node_post_heuristic :: "main_module \<Rightarrow> node \<Rightarrow> path \<Rightarrow> path option res" where
  "get_next_node_post_heuristic h rt q =
     (case subtree rt q of
        None \<Rightarrow> Inl NoSuchNode
      | Some nd \<Rightarrow>
          (case unfinished_leaves nd of
             [] \<Rightarrow>
               if is_failed nd then
                 (if q = [] then Inl AttributeError
                  else
                    bind (climb rt (butlast q)) (\<lambda>r.
                      case r of
                        None \<Rightarrow> Inr None
                      | Some parent \<Rightarrow> get_next_node_post_heuristic h rt parent))
               else Inl NotImplementedError
           | [(l, leaf)] \<Rightarrow> Inr (Some (q @ l))
           | pl # pl' # pls \<Rightarrow>
               bind (nesting_node h nd) (\<lambda>(l, n). Inr (Some (q @ l)))))"
  by pat_completeness auto

termination get_next_node_post_heuristic
proof (relation "measure (\<lambda>(h, rt, q). length q)")
  show "wf (measure (\<lambda>(h, rt, q). length q))"
    by simp
next
  fix h :: main_module and rt :: node and q :: path and nd r parent
  assume "q \<noteq> []" and "climb rt (butlast q) = Inr r" and "r = Some parent"
  then have "length parent \<le> length (butlast q)"
    using climb_length by blast
  with \<open>q \<noteq> []\<close> show "((h, rt, parent), (h, rt, q)) \<in> measure (\<lambda>(h, rt, q). length q)"
    by (cases q rule: rev_cases) auto
qed

declare get_next_node_post_heuristic.simps [simp del]

subsection \<open>\<open>_cycle\<close> and \<open>Integration.integrate\<close>\<close>

text \<open>What \<open>_cycle\<close> returns: the string \<open>"SOLVED"\<close>, a node, or \<open>None\<close>.\<close>

datatype answer = SOLVED_answer | Node_answer path | None_answer

text \<open>The loop \<open>for leaf in node.unfinished_leaves: _check_if_solvable(leaf)\<close>.\<close>

fun check_leaves :: "methods \<Rightarrow> (path \<times> node) list \<Rightarrow> node \<Rightarrow> node res" where
  "check_leaves m [] nd = Inr nd"
| "check_leaves m ((p, leaf) # rest) nd =
     bind (check_if_solvable m leaf) (\<lambda>leaf'. check_leaves m rest (put_subtree nd p leaf'))"

text \<open>
  \<open>_cycle(node)\<close> for the node at the path \<open>curr_node\<close> of the tree (\<open>None\<close> where the source
  holds \<open>None\<close>, on which the first attribute access raises \<open>AttributeError\<close>): the tree
  after the call, and the answer.
\<close>

definition cycle ::
  "nat \<Rightarrow> methods \<Rightarrow> main_module \<Rightarrow> node \<Rightarrow> path option \<Rightarrow> (node \<times> answer) res" where
  "cycle k m h rt curr_node =
     (case curr_node of
        None \<Rightarrow> Inl AttributeError
      | Some p \<Rightarrow>
          (case subtree rt p of
             None \<Rightarrow> Inl NoSuchNode
           | Some nd \<Rightarrow>
               bind (integrate_safely k (SAFE_TRANSFORMS m h) nd) (\<lambda>nd1.
               bind (check_leaves m (unfinished_leaves nd1) nd1) (\<lambda>nd2.
                 case unfinished_leaves nd2 of
                   [] \<Rightarrow> Inr (put_subtree rt p nd2, SOLVED_answer)
                 | (l, next_node) # others \<Rightarrow>
                     bind (integrate_heuristically (HEURISTICS m h) next_node) (\<lambda>next_node'.
                     bind (get_next_node_post_heuristic h
                             (put_subtree rt p (put_subtree nd2 l next_node')) (p @ l))
                       (\<lambda>next_next_node.
                         Inr (put_subtree rt p (put_subtree nd2 l next_node'),
                              case next_next_node of
                                None \<Rightarrow> None_answer
                              | Some r \<Rightarrow> Node_answer r)))))))"

text \<open>
  \<open>Integration.integrate\<close> up to the point where the tree is finished: the \<open>while\<close>
  loop, bounded by the first argument, and the test that raises \<open>NotImplementedError\<close>
  for a failed root. The result is the finished tree, from which the source goes on to
  read the solution backwards.
\<close>

fun integrate_loop ::
  "nat \<Rightarrow> methods \<Rightarrow> main_module \<Rightarrow> node \<Rightarrow> path option \<Rightarrow> node res" where
  "integrate_loop 0 m h rt curr_node = Inl OutOfFuel"
| "integrate_loop (Suc k) m h rt curr_node =
     bind (cycle k m h rt curr_node) (\<lambda>(rt', answer).
       if is_finished rt' then Inr rt'
       else
         case answer of
           SOLVED_answer \<Rightarrow>
             bind (get_next_node_post_heuristic h rt' []) (integrate_loop k m h rt')
         | Node_answer r \<Rightarrow> integrate_loop k m h rt' (Some r)
         | None_answer \<Rightarrow> integrate_loop k m h rt' None)"

definition Integration_integrate ::
  "nat \<Rightarrow> methods \<Rightarrow> main_module \<Rightarrow> expr \<Rightarrow> string \<Rightarrow> node res" where
  "Integration_integrate k m h integrand var =
     bind (Node_init m integrand var None) (\<lambda>rt.
     bind (integrate_loop k m h rt (Some [])) (\<lambda>rt'.
       if is_failed rt' then Inl NotImplementedError else Inr rt'))"

text \<open>No node of the tree has the type \<open>FAILURE\<close>.\<close>

fun failure_free :: "node \<Rightarrow> bool" where
  "failure_free (Node ex v tr cs ty sol) = (ty \<noteq> FAILURE \<and> list_all failure_free cs)"

section \<open>Properties of expressions\<close>

subsection \<open>Equality\<close>

lemma expr_eq_iff_aux:
  "expr_eq a b = (a = b)" "exprs_eq as bs = (as = bs)"
  by (induction a b and as bs rule: expr_eq_exprs_eq.induct) simp_all

text \<open>Python's \<open>==\<close> on expressions is the equality of the datatype.\<close>

lemma expr_eq_iff: "expr_eq a b \<longleftrightarrow> a = b"
  by (rule expr_eq_iff_aux)

text \<open>
  C4 (as amended). Two expressions that are \<open>==\<close> have the same canonical text:
  \<open>__repr__\<close> gives the same result on both.
\<close>

theorem C4_eq_implies_same_repr:
  "expr_eq a b \<Longrightarrow> repr fp n a = repr fp n b"
  by (simp add: expr_eq_iff)

theorem C4_eq_implies_same_repr_witness:
  "\<forall>fp. expr_eq (Power (Symbol ''x'') (Const 2)) (Power (Symbol ''x'') (Const 2))
     \<and> repr fp 5 (Power (Symbol ''x'') (Const 2)) = repr fp 5 (Power (Symbol ''x'') (Const 2))"
proof
  fix fp
  have h: "expr_eq (Power (Symbol ''x'') (Const 2)) (Power (Symbol ''x'') (Const 2))"
    by simp
  show "expr_eq (Power (Symbol ''x'') (Const 2)) (Power (Symbol ''x'') (Const 2))
     \<and> repr fp 5 (Power (Symbol ''x'') (Const 2)) = repr fp 5 (Power (Symbol ''x'') (Const 2))"
    using h C4_eq_implies_same_repr [OF h, of fp 5] by blast
qed

text \<open>
  C4 as stated fails from right to left: the symbol named \<open>pi\<close> and the constant \<open>Pi\<close>
  have the same text \<open>pi\<close>, and \<open>Symbol.__eq__\<close> answers \<open>False\<close> on them.
\<close>

theorem C4_counterexample_symbol_pi:
  "\<forall>fp n. repr fp (Suc n) (Symbol ''pi'') = Inr ''pi'' \<and> repr fp (Suc n) Pi = Inr ''pi''
     \<and> \<not> expr_eq (Symbol ''pi'') Pi"
  by (simp add: Expr_repr_def)

subsection \<open>\<open>simplify\<close> at the special angles\<close>

text \<open>
  C1. \<open>simplify\<close> is not idempotent at \<open>Sin(Fraction(3,2)*pi)\<close>: the first call returns the
  entry \<open>-Const(1)\<close> of \<open>Sin._special_values\<close> as it stands in the table, the product of
  \<open>Const(-1)\<close> and \<open>Const(1)\<close>, and the second call turns that into \<open>Const(-1)\<close>.
\<close>

theorem C1_simplify_twice_at_sin_3pi_2:
  "simplify fp 30 (TrigFunction Sin (Prod [Const (3 / 2), Pi])) = Inr (Prod [Const (- 1), Const 1])
   \<and> simplify fp 30 (Prod [Const (- 1), Const 1]) = Inr (Const (- 1))"
  by code_simp

lemma real_value_one_over_sqrt2: "real_value env one_over_sqrt2 = 1 / sqrt 2"
  by (simp add: one_over_sqrt2_def powr_half_sqrt powr_minus_divide of_rat_divide)

lemma real_value_sin_2pi_3:
  "real_value env (TrigFunction Sin (Prod [Const (2 / 3), Pi])) = sqrt 3 / 2"
proof -
  have "sin (2 / 3 * pi) = sin (pi - pi / 3)" by (simp add: field_simps)
  also have "\<dots> = sin (pi / 3)" by (rule sin_pi_minus)
  also have "\<dots> = sqrt 3 / 2" by (rule sin_60)
  finally show ?thesis by (simp add: of_rat_divide)
qed

lemma one_over_sqrt2_neq: "1 / sqrt 2 \<noteq> sqrt 3 / (2::real)"
proof
  assume "1 / sqrt 2 = sqrt 3 / (2::real)"
  then have "(1 / sqrt 2)\<^sup>2 = (sqrt 3 / (2::real))\<^sup>2" by simp
  then show False by (simp add: power_divide)
qed

lemma simplify_sin_2pi_3:
  "simplify fp 30 (TrigFunction Sin (Prod [Const (2 / 3), Pi])) = Inr one_over_sqrt2"
  by code_simp

text \<open>
  C2. At \<open>Sin(Fraction(2,3)*pi)\<close> the table of \<open>Sin\<close> answers \<open>1/sqrt(2)\<close>, which is not
  the value of the sine there, \<open>sqrt(3)/2\<close> (the entries of the keys \<open>2/3\<close> and \<open>3/4\<close>
  are exchanged in the table, as are those of \<open>5/3\<close> and \<open>7/4\<close>).
\<close>

theorem C2_sin_2pi_3_wrong_value:
  "simplify fp 30 (TrigFunction Sin (Prod [Const (2 / 3), Pi])) = Inr one_over_sqrt2
   \<and> real_value env one_over_sqrt2
       \<noteq> real_value env (TrigFunction Sin (Prod [Const (2 / 3), Pi]))"
  using simplify_sin_2pi_3 [of fp] real_value_one_over_sqrt2 [of env]
    real_value_sin_2pi_3 [of env] one_over_sqrt2_neq
  by presburger

subsection \<open>The Pythagorean identities in \<open>Sum.simplify\<close>\<close>



























text \<open>
  The row \<open>sec(u)^2 - tan(u)^2\<close> of \<open>other_table\<close> does not return: the terms that it
  removes from the sum are those with the texts \<open>sin(u)^2\<close> and \<open>cos(u)^2\<close>, so the sum
  that it simplifies next still holds \<open>sec(u)^2\<close> and \<open>-tan(u)^2\<close> and the row applies
  again. At depth 40 the call has not returned.
\<close>

lemma simplify_sec_minus_tan:
  "simplify fp 40
       (Sum [Power (TrigFunction Sec (Symbol ''x'')) (Const 2),
             Prod [Const (- 1), Power (TrigFunction Tan (Symbol ''x'')) (Const 2)]])
     = Inl OutOfFuel"
  by code_simp



section \<open>Properties of differentiation and of the table of antiderivatives\<close>

text \<open>
  C6. \<open>Power.diff\<close> raises \<open>NotImplementedError\<close> (the error the specification calls
  \<open>UnsupportedDerivative\<close>) when the variable is in the base and in the exponent. When
  the exponent is free of the variable the result is the power rule with the chain rule,
  \<open>exponent * base ** (exponent - 1) * base.diff(var)\<close>; when only the base is free of it the
  result is \<open>Log(base) * self * exponent.diff(var)\<close>.
\<close>

theorem C6_Power_diff:
  "(contains b v \<and> contains x v \<longrightarrow> diff fp (Suc n) (Power b x) v = Inl NotImplementedError)
   \<and> (\<not> contains x v \<longrightarrow>
        diff fp (Suc n) (Power b x) v =
          bind (sub (methods_at fp n) x (Const 1)) (\<lambda>x1.
          bind (mul (methods_at fp n) x (Power b x1)) (\<lambda>p.
          bind (diff fp n b v) (\<lambda>db. mul (methods_at fp n) p db))))
   \<and> (contains x v \<and> \<not> contains b v \<longrightarrow>
        diff fp (Suc n) (Power b x) v =
          bind (mul (methods_at fp n) (Log b) (Power b x)) (\<lambda>p.
          bind (diff fp n x v) (\<lambda>dx. mul (methods_at fp n) p dx)))"
  by simp

lemma Power_diff_examples:
  "diff fp (Suc 29) (Power (Symbol ''x'') (Symbol ''x'')) ''x'' = Inl NotImplementedError
   \<and> diff fp (Suc 29) (Power (Symbol ''x'') (Const 3)) ''x''
       = Inr (Prod [Const 1, Const 3,
                Power (Symbol ''x'') (Sum [Prod [Const (- 1), Const 1], Const 3])])
   \<and> diff fp (Suc 29) (Power (Const 2) (Symbol ''x'')) ''x''
       = Inr (Prod [Const 1, Log (Const 2), Power (Const 2) (Symbol ''x'')])"
  by code_simp

theorem C6_Power_diff_witness:
  "\<forall>fp. contains (Symbol ''x'') ''x''
     \<and> diff fp (Suc 29) (Power (Symbol ''x'') (Symbol ''x'')) ''x'' = Inl NotImplementedError
     \<and> \<not> contains (Const 3) ''x''
     \<and> diff fp (Suc 29) (Power (Symbol ''x'') (Const 3)) ''x''
         = Inr (Prod [Const 1, Const 3,
                  Power (Symbol ''x'') (Sum [Prod [Const (- 1), Const 1], Const 3])])
     \<and> \<not> contains (Const 2) ''x''
     \<and> diff fp (Suc 29) (Power (Const 2) (Symbol ''x'')) ''x''
         = Inr (Prod [Const 1, Log (Const 2), Power (Const 2) (Symbol ''x'')])"
proof
  fix fp
  have c: "contains (Symbol ''x'') ''x''" "\<not> contains (Const 3) ''x''"
    "\<not> contains (Const 2) ''x''"
    by simp_all
  from c Power_diff_examples [of fp]
    C6_Power_diff [of "Symbol ''x''" "''x''" "Symbol ''x''" fp 29]
  show "contains (Symbol ''x'') ''x''
     \<and> diff fp (Suc 29) (Power (Symbol ''x'') (Symbol ''x'')) ''x'' = Inl NotImplementedError
     \<and> \<not> contains (Const 3) ''x''
     \<and> diff fp (Suc 29) (Power (Symbol ''x'') (Const 3)) ''x''
         = Inr (Prod [Const 1, Const 3,
                  Power (Symbol ''x'') (Sum [Prod [Const (- 1), Const 1], Const 3])])
     \<and> \<not> contains (Const 2) ''x''
     \<and> diff fp (Suc 29) (Power (Const 2) (Symbol ''x'')) ''x''
         = Inr (Prod [Const 1, Log (Const 2), Power (Const 2) (Symbol ''x'')])"
    by blast
qed








section \<open>Properties of the search tree\<close>

lemma is_solved_iff:
  "is_solved n \<longleftrightarrow>
     node_type n = SOLUTION
     \<or> (0 < length (node_children n) \<and> node_type n \<in> {AND, UNSET} \<and> list_all is_solved (node_children n))
     \<or> (node_type n = OR \<and> list_ex is_solved (node_children n))"
  by (cases n) (auto simp: list_ex_iff)

lemma is_failed_iff:
  "is_failed n \<longleftrightarrow>
     node_type n = FAILURE
     \<or> (node_type n \<in> {AND, UNSET, SOLUTION} \<and> list_ex is_failed (node_children n))
     \<or> (node_type n = OR \<and> 0 < length (node_children n) \<and> list_all is_failed (node_children n))"
  by (cases n; cases "node_type n") (auto simp: list_ex_iff)

text \<open>
  C9 (as amended). A node is solved iff it is a \<open>SOLUTION\<close> node, or an \<open>AND\<close> or
  \<open>UNSET\<close> node that has at least one child and all of whose children are solved, or an
  \<open>OR\<close> node some child of which is solved. It is failed iff it is a \<open>FAILURE\<close> node, or
  an \<open>AND\<close>, \<open>UNSET\<close> or \<open>SOLUTION\<close> node some child of which is failed, or an \<open>OR\<close> node
  that has at least one child and all of whose children are failed.
\<close>

theorem C9_solved_failed_characterisation:
  "(is_solved n \<longleftrightarrow>
      node_type n = SOLUTION
      \<or> (0 < length (node_children n) \<and> node_type n \<in> {AND, UNSET} \<and> list_all is_solved (node_children n))
      \<or> (node_type n = OR \<and> list_ex is_solved (node_children n)))
   \<and> (is_failed n \<longleftrightarrow>
      node_type n = FAILURE
      \<or> (node_type n \<in> {AND, UNSET, SOLUTION} \<and> list_ex is_failed (node_children n))
      \<or> (node_type n = OR \<and> 0 < length (node_children n) \<and> list_all is_failed (node_children n)))"
  using is_solved_iff [of n] is_failed_iff [of n] by blast

text \<open>
  C9 as stated fails: an \<open>UNSET\<close> node (the single-child default, as \<open>PullConstant\<close>
  leaves it) whose only child is a \<open>SOLUTION\<close> is solved, although it is neither a
  \<open>SOLUTION\<close>, nor an \<open>AND\<close>, nor an \<open>OR\<close> node.
\<close>

theorem C9_counterexample_unset_node:
  "is_solved (Node (Symbol ''x'') ''x'' None
                [Node (Symbol ''x'') ''x'' None [] SOLUTION (Some (Symbol ''x''))] UNSET None)
   \<and> \<not> (node_type (Node (Symbol ''x'') ''x'' None
                [Node (Symbol ''x'') ''x'' None [] SOLUTION (Some (Symbol ''x''))] UNSET None) = SOLUTION
        \<or> (node_type (Node (Symbol ''x'') ''x'' None
                [Node (Symbol ''x'') ''x'' None [] SOLUTION (Some (Symbol ''x''))] UNSET None) = AND
            \<and> list_all is_solved (node_children (Node (Symbol ''x'') ''x'' None
                [Node (Symbol ''x'') ''x'' None [] SOLUTION (Some (Symbol ''x''))] UNSET None)))
        \<or> (node_type (Node (Symbol ''x'') ''x'' None
                [Node (Symbol ''x'') ''x'' None [] SOLUTION (Some (Symbol ''x''))] UNSET None) = OR
            \<and> list_ex is_solved (node_children (Node (Symbol ''x'') ''x'' None
                [Node (Symbol ''x'') ''x'' None [] SOLUTION (Some (Symbol ''x''))] UNSET None))))"
  by simp


text \<open>
  C10. The node built for \<open>Sin(Fraction(3,2)*pi)\<close> stores what \<open>simplify\<close> returns, the
  product of \<open>Const(-1)\<close> and \<open>Const(1)\<close>, and this stored expression is not a fixed
  point of \<open>simplify\<close>.
\<close>

theorem C10_node_expr_not_fixed_point:
  "Node_new fp 30 (TrigFunction Sin (Prod [Const (3 / 2), Pi])) ''x'' None None UNSET None
     = Inr (Node (Prod [Const (- 1), Const 1]) ''x'' None [] UNSET None)
   \<and> simplify fp 30 (Prod [Const (- 1), Const 1]) = Inr (Const (- 1))"
  by code_simp

section \<open>Integration by parts\<close>


























section \<open>The first scheduler\<close>

lemma Node_init_Inr:
  "Node_init m ex v tr = Inr c \<Longrightarrow>
     node_children c = [] \<and> node_type c = UNSET \<and> node_var c = v \<and> node_transform c = tr
     \<and> node_solution c = None \<and> simplify_m m ex = Inr (node_expr c)"
  unfolding Node_init_def by (auto split: sum.splits)

lemma map_res_Inr_all:
  "map_res f xs = Inr ys \<Longrightarrow> \<forall>x\<in>set xs. \<forall>y. f x = Inr y \<longrightarrow> P y \<Longrightarrow> list_all P ys"
  by (induction xs arbitrary: ys) (auto split: sum.splits)

lemma map_res_Inr_empty:
  "map_res f xs = Inr ys \<Longrightarrow> (ys = []) = (xs = [])"
  by (cases xs) (auto split: sum.splits)

lemma set_fields [simp]:
  "node_expr (set_children nd cs) = node_expr nd"
  "node_var (set_children nd cs) = node_var nd"
  "node_transform (set_children nd cs) = node_transform nd"
  "node_children (set_children nd cs) = cs"
  "node_type (set_children nd cs) = node_type nd"
  "node_solution (set_children nd cs) = node_solution nd"
  "node_expr (set_type nd ty) = node_expr nd"
  "node_var (set_type nd ty) = node_var nd"
  "node_transform (set_type nd ty) = node_transform nd"
  "node_children (set_type nd ty) = node_children nd"
  "node_type (set_type nd ty) = ty"
  "node_solution (set_type nd ty) = node_solution nd"
  by (simp_all add: set_children_def set_type_def)

subsection \<open>A failed leaf at the root\<close>

lemma safe_loop_no_check:
  "list_all (\<lambda>tr. tr_check tr nd = Inr False) trs \<Longrightarrow> safe_loop k safe trs nd = Inr nd"
  by (induction trs) simp_all

lemma heuristic_loop_no_check:
  "list_all (\<lambda>tr. tr_check tr nd = Inr False) trs \<Longrightarrow> heuristic_loop trs nd = Inr nd"
  by (induction trs) simp_all

lemma get_next_node_failed_root:
  assumes "node_type nd = FAILURE" and "node_children nd = []"
  shows "get_next_node_post_heuristic h nd [] = Inl AttributeError"
proof -
  from assms have failed: "is_failed nd"
    by (cases nd) simp
  from assms have "leaves nd = [([], nd)]"
    by (cases nd) simp
  with failed have "unfinished_leaves nd = []"
    by (simp add: unfinished_leaves_def is_finished_def)
  with failed show ?thesis
    by (subst get_next_node_post_heuristic.simps) simp
qed

text \<open>
  C7. Where the root itself is the leaf that fails (no safe transform applies to it, the
  table has no answer, and no heuristic applies), \<open>Integration.integrate\<close> does not reach
  its test for a failed root: \<open>_integrate_heuristically\<close> marks the root \<open>FAILURE\<close>, and
  \<open>_get_next_node_post_heuristic\<close>, called on it by \<open>_cycle\<close>, reads \<open>children\<close> of the
  parent of the root, which is \<open>None\<close>. The call ends with \<open>AttributeError\<close>, not with the
  \<open>NotImplementedError\<close> that reports a failed integration.
\<close>

theorem C7_integrate_failed_root_leaf:
  assumes init: "Node_init m integrand var None = Inr nd"
    and safe: "list_all (\<lambda>tr. tr_check tr nd = Inr False) (SAFE_TRANSFORMS m h)"
    and table: "check_if_solvable_answer m nd = Inr None"
    and heur: "list_all (\<lambda>tr. tr_check tr nd = Inr False) (HEURISTICS m h)"
  shows "Integration_integrate (Suc (Suc k)) m h integrand var = Inl AttributeError"
proof -
  from Node_init_Inr [OF init] have leaf: "node_children nd = []" and ty: "node_type nd = UNSET"
    by simp_all
  from leaf ty have unfinished: "\<not> is_finished nd"
    by (cases nd) (simp add: is_finished_def)
  from leaf have "leaves nd = [([], nd)]"
    by (cases nd) simp
  with unfinished have ul: "unfinished_leaves nd = [([], nd)]"
    by (simp add: unfinished_leaves_def)
  have s: "safe_loop k (SAFE_TRANSFORMS m h) (SAFE_TRANSFORMS m h) nd = Inr nd"
    using safe by (rule safe_loop_no_check)
  have t: "check_if_solvable m nd = Inr nd"
    using table by (simp add: check_if_solvable_def)
  have hr: "integrate_heuristically (HEURISTICS m h) nd = Inr (set_type nd FAILURE)"
    using heur leaf by (simp add: integrate_heuristically_def heuristic_loop_no_check)
  have g: "get_next_node_post_heuristic h (set_type nd FAILURE) [] = Inl AttributeError"
    using leaf by (intro get_next_node_failed_root) simp_all
  have "cycle (Suc k) m h nd (Some []) = Inl AttributeError"
    by (simp add: cycle_def s t ul hr g)
  then show ?thesis
    by (simp add: Integration_integrate_def init)
qed

text \<open>
  The failing input \<open>Integration.integrate(Log(x), x)\<close>. The helpers of the missing module
  are given the answers that they have on \<open>Log(x)\<close>: it is not expandable, its only
  symbol is \<open>x\<close>, it holds no trigonometric function, and its text is \<open>ln(x)\<close>.
\<close>

lemma simplify_log_x: "simplify fp 40 (Log (Symbol ''x'')) = Inr (Log (Symbol ''x''))"
  by code_simp

lemma repr_log_x: "repr fp 40 (Log (Symbol ''x'')) = Inr ''ln(x)''"
  by code_simp

theorem C7_integrate_failed_root_leaf_witness:
  "\<forall>fp.
     Node_init (methods_at fp 40) (Log (Symbol ''x'')) ''x'' None = Inr (Node (Log (Symbol ''x'')) ''x'' None [] UNSET None)
     \<and> list_all (\<lambda>tr. tr_check tr (Node (Log (Symbol ''x'')) ''x'' None [] UNSET None) = Inr False)
         (SAFE_TRANSFORMS (methods_at fp 40)
           \<lparr>expandable_f = (\<lambda>e. Inr False), expand_f = Inr,
          symbols_f = (\<lambda>e. Inr [''x'']), polynomial_division_f = (\<lambda>e v. Inr None),
          contains_Tan_f = (\<lambda>e. Inr (contains_TrigFunction e)),
          contains_TrigFunction_f = (\<lambda>e. Inr (contains_TrigFunction e)),
          count_f = (\<lambda>e q. Inr (count e q)),
          B_Tan_integrand_f = (\<lambda>e v. Inr (e, v)), A_rewrites_f = (\<lambda>e. Inr (e, e, e)),
          C_Sin_integrand_f = (\<lambda>e v. Inr (e, v)), C_Tan_integrand_f = (\<lambda>e v. Inr (e, v)),
          nesting_f = (\<lambda>e v. nesting e (Some v))\<rparr>)
     \<and> check_if_solvable_answer (methods_at fp 40) (Node (Log (Symbol ''x'')) ''x'' None [] UNSET None) = Inr None
     \<and> list_all (\<lambda>tr. tr_check tr (Node (Log (Symbol ''x'')) ''x'' None [] UNSET None) = Inr False)
         (HEURISTICS (methods_at fp 40)
           \<lparr>expandable_f = (\<lambda>e. Inr False), expand_f = Inr,
          symbols_f = (\<lambda>e. Inr [''x'']), polynomial_division_f = (\<lambda>e v. Inr None),
          contains_Tan_f = (\<lambda>e. Inr (contains_TrigFunction e)),
          contains_TrigFunction_f = (\<lambda>e. Inr (contains_TrigFunction e)),
          count_f = (\<lambda>e q. Inr (count e q)),
          B_Tan_integrand_f = (\<lambda>e v. Inr (e, v)), A_rewrites_f = (\<lambda>e. Inr (e, e, e)),
          C_Sin_integrand_f = (\<lambda>e v. Inr (e, v)), C_Tan_integrand_f = (\<lambda>e v. Inr (e, v)),
          nesting_f = (\<lambda>e v. nesting e (Some v))\<rparr>)
     \<and> Integration_integrate (Suc (Suc 0)) (methods_at fp 40)
         \<lparr>expandable_f = (\<lambda>e. Inr False), expand_f = Inr,
          symbols_f = (\<lambda>e. Inr [''x'']), polynomial_division_f = (\<lambda>e v. Inr None),
          contains_Tan_f = (\<lambda>e. Inr (contains_TrigFunction e)),
          contains_TrigFunction_f = (\<lambda>e. Inr (contains_TrigFunction e)),
          count_f = (\<lambda>e q. Inr (count e q)),
          B_Tan_integrand_f = (\<lambda>e v. Inr (e, v)), A_rewrites_f = (\<lambda>e. Inr (e, e, e)),
          C_Sin_integrand_f = (\<lambda>e v. Inr (e, v)), C_Tan_integrand_f = (\<lambda>e v. Inr (e, v)),
          nesting_f = (\<lambda>e v. nesting e (Some v))\<rparr>
         (Log (Symbol ''x'')) ''x'' = Inl AttributeError"
proof
  fix fp
  have init: "Node_init (methods_at fp 40) (Log (Symbol ''x'')) ''x'' None = Inr (Node (Log (Symbol ''x'')) ''x'' None [] UNSET None)"
    by (simp add: Node_init_def methods_at_def simplify_log_x)
  have safe: "list_all (\<lambda>tr. tr_check tr (Node (Log (Symbol ''x'')) ''x'' None [] UNSET None) = Inr False)
         (SAFE_TRANSFORMS (methods_at fp 40)
           \<lparr>expandable_f = (\<lambda>e. Inr False), expand_f = Inr,
          symbols_f = (\<lambda>e. Inr [''x'']), polynomial_division_f = (\<lambda>e v. Inr None),
          contains_Tan_f = (\<lambda>e. Inr (contains_TrigFunction e)),
          contains_TrigFunction_f = (\<lambda>e. Inr (contains_TrigFunction e)),
          count_f = (\<lambda>e q. Inr (count e q)),
          B_Tan_integrand_f = (\<lambda>e v. Inr (e, v)), A_rewrites_f = (\<lambda>e. Inr (e, e, e)),
          C_Sin_integrand_f = (\<lambda>e v. Inr (e, v)), C_Tan_integrand_f = (\<lambda>e v. Inr (e, v)),
          nesting_f = (\<lambda>e v. nesting e (Some v))\<rparr>)"
    by (simp add: SAFE_TRANSFORMS_def Additivity_tr_def PullConstant_tr_def
        PullConstant_parts_def Expand_tr_def PolynomialDivision_tr_def is_Sum_def is_Prod_def)
  have table: "check_if_solvable_answer (methods_at fp 40) (Node (Log (Symbol ''x'')) ''x'' None [] UNSET None) = Inr None"
    by (simp add: check_if_solvable_answer_def)
  have heur: "list_all (\<lambda>tr. tr_check tr (Node (Log (Symbol ''x'')) ''x'' None [] UNSET None) = Inr False)
         (HEURISTICS (methods_at fp 40)
           \<lparr>expandable_f = (\<lambda>e. Inr False), expand_f = Inr,
          symbols_f = (\<lambda>e. Inr [''x'']), polynomial_division_f = (\<lambda>e v. Inr None),
          contains_Tan_f = (\<lambda>e. Inr (contains_TrigFunction e)),
          contains_TrigFunction_f = (\<lambda>e. Inr (contains_TrigFunction e)),
          count_f = (\<lambda>e q. Inr (count e q)),
          B_Tan_integrand_f = (\<lambda>e v. Inr (e, v)), A_rewrites_f = (\<lambda>e. Inr (e, e, e)),
          C_Sin_integrand_f = (\<lambda>e v. Inr (e, v)), C_Tan_integrand_f = (\<lambda>e v. Inr (e, v)),
          nesting_f = (\<lambda>e v. nesting e (Some v))\<rparr>)"
    by (simp add: HEURISTICS_def B_Tan_tr_def A_tr_def C_Sin_tr_def C_Tan_tr_def methods_at_def
        repr_log_x)
  show "Node_init (methods_at fp 40) (Log (Symbol ''x'')) ''x'' None = Inr (Node (Log (Symbol ''x'')) ''x'' None [] UNSET None)
     \<and> list_all (\<lambda>tr. tr_check tr (Node (Log (Symbol ''x'')) ''x'' None [] UNSET None) = Inr False)
         (SAFE_TRANSFORMS (methods_at fp 40)
           \<lparr>expandable_f = (\<lambda>e. Inr False), expand_f = Inr,
          symbols_f = (\<lambda>e. Inr [''x'']), polynomial_division_f = (\<lambda>e v. Inr None),
          contains_Tan_f = (\<lambda>e. Inr (contains_TrigFunction e)),
          contains_TrigFunction_f = (\<lambda>e. Inr (contains_TrigFunction e)),
          count_f = (\<lambda>e q. Inr (count e q)),
          B_Tan_integrand_f = (\<lambda>e v. Inr (e, v)), A_rewrites_f = (\<lambda>e. Inr (e, e, e)),
          C_Sin_integrand_f = (\<lambda>e v. Inr (e, v)), C_Tan_integrand_f = (\<lambda>e v. Inr (e, v)),
          nesting_f = (\<lambda>e v. nesting e (Some v))\<rparr>)
     \<and> check_if_solvable_answer (methods_at fp 40) (Node (Log (Symbol ''x'')) ''x'' None [] UNSET None) = Inr None
     \<and> list_all (\<lambda>tr. tr_check tr (Node (Log (Symbol ''x'')) ''x'' None [] UNSET None) = Inr False)
         (HEURISTICS (methods_at fp 40)
           \<lparr>expandable_f = (\<lambda>e. Inr False), expand_f = Inr,
          symbols_f = (\<lambda>e. Inr [''x'']), polynomial_division_f = (\<lambda>e v. Inr None),
          contains_Tan_f = (\<lambda>e. Inr (contains_TrigFunction e)),
          contains_TrigFunction_f = (\<lambda>e. Inr (contains_TrigFunction e)),
          count_f = (\<lambda>e q. Inr (count e q)),
          B_Tan_integrand_f = (\<lambda>e v. Inr (e, v)), A_rewrites_f = (\<lambda>e. Inr (e, e, e)),
          C_Sin_integrand_f = (\<lambda>e v. Inr (e, v)), C_Tan_integrand_f = (\<lambda>e v. Inr (e, v)),
          nesting_f = (\<lambda>e v. nesting e (Some v))\<rparr>)
     \<and> Integration_integrate (Suc (Suc 0)) (methods_at fp 40)
         \<lparr>expandable_f = (\<lambda>e. Inr False), expand_f = Inr,
          symbols_f = (\<lambda>e. Inr [''x'']), polynomial_division_f = (\<lambda>e v. Inr None),
          contains_Tan_f = (\<lambda>e. Inr (contains_TrigFunction e)),
          contains_TrigFunction_f = (\<lambda>e. Inr (contains_TrigFunction e)),
          count_f = (\<lambda>e q. Inr (count e q)),
          B_Tan_integrand_f = (\<lambda>e v. Inr (e, v)), A_rewrites_f = (\<lambda>e. Inr (e, e, e)),
          C_Sin_integrand_f = (\<lambda>e v. Inr (e, v)), C_Tan_integrand_f = (\<lambda>e v. Inr (e, v)),
          nesting_f = (\<lambda>e v. nesting e (Some v))\<rparr>
         (Log (Symbol ''x'')) ''x'' = Inl AttributeError"
    using init safe table heur C7_integrate_failed_root_leaf [OF init safe table heur, of 0]
    by (intro conjI)
qed
subsection \<open>Where \<open>FAILURE\<close> comes from\<close>

text \<open>
  When the root is failed after a cycle, the loop of \<open>integrate\<close> ends with that tree, and
  \<open>integrate\<close> raises \<open>NotImplementedError\<close> on it.
\<close>

lemma integrate_loop_failed_root:
  assumes "cycle k m h rt curr_node = Inr (rt', answer)" and "is_failed rt'"
  shows "integrate_loop (Suc k) m h rt curr_node = Inr rt'"
  using assms by (simp add: is_finished_def)

lemma integrate_failed_root:
  assumes "Node_init m integrand var None = Inr rt"
    and "integrate_loop k m h rt (Some []) = Inr rt'" and "is_failed rt'"
  shows "Integration_integrate k m h integrand var = Inl NotImplementedError"
  using assms by (simp add: Integration_integrate_def)

text \<open>
  The loop of \<open>A.forward\<close> starts from three rewritings, and removing an element skips the
  one after it: at least one is left.
\<close>

lemma remove_same_repr_stop:
  "\<not> i < length stuff \<Longrightarrow> remove_same_repr rp ex i stuff = Inr stuff"
  by (subst remove_same_repr.simps) simp

lemma remove_same_repr_step:
  "i < length stuff \<Longrightarrow> rp (stuff ! i) = Inr r \<Longrightarrow> rp ex = Inr s \<Longrightarrow>
     remove_same_repr rp ex i stuff =
       (if r = s then remove_same_repr rp ex (Suc i) (remove1 (stuff ! i) stuff)
        else remove_same_repr rp ex (Suc i) stuff)"
  by (subst remove_same_repr.simps) simp

lemma remove_same_repr_Inr:
  "i < length stuff \<Longrightarrow> remove_same_repr rp ex i stuff = Inr out \<Longrightarrow>
     \<exists>r s. rp (stuff ! i) = Inr r \<and> rp ex = Inr s"
  by (subst (asm) remove_same_repr.simps) (simp split: sum.splits)

lemma remove_same_repr_length:
  "remove_same_repr rp ex i stuff = Inr out \<Longrightarrow>
     length stuff \<le> length out + (length stuff - i + 1) div 2"
proof (induction "length stuff - i" arbitrary: i stuff out rule: less_induct)
  case less
  show ?case
  proof (cases "i < length stuff")
    case False
    with less.prems show ?thesis
      by (simp add: remove_same_repr_stop)
  next
    case True
    from remove_same_repr_Inr [OF True less.prems]
    obtain r s where r: "rp (stuff ! i) = Inr r" and s: "rp ex = Inr s"
      by (elim exE conjE)
    note step = remove_same_repr_step [OF True r s]
    from True obtain d where d: "length stuff = i + Suc d"
      using less_imp_Suc_add by auto
    show ?thesis
    proof (cases "r = s")
      case True
      with less.prems step
      have run: "remove_same_repr rp ex (Suc i) (remove1 (stuff ! i) stuff) = Inr out"
        by simp
      from d have len: "length (remove1 (stuff ! i) stuff) = i + d"
        by (simp add: length_remove1)
      from len d have "length (remove1 (stuff ! i) stuff) - Suc i < length stuff - i"
        by simp
      from less.hyps [OF this run] len
      have "i + d \<le> length out + (i + d - Suc i + 1) div 2"
        by simp
      with d show ?thesis
        by (cases d) auto
    next
      case False
      with less.prems step
      have run: "remove_same_repr rp ex (Suc i) stuff = Inr out"
        by simp
      from d have "length stuff - Suc i < length stuff - i"
        by simp
      from less.hyps [OF this run] d show ?thesis
        by auto
    qed
  qed
qed

lemma remove_same_repr_three:
  "remove_same_repr rp ex 0 [r1, r2, r3] = Inr out \<Longrightarrow> out \<noteq> []"
  using remove_same_repr_length [of rp ex 0 "[r1, r2, r3]" out] by auto

text \<open>
  \<open>forward\<close> of a heuristic leaves the node with at least one child; it changes neither
  the expression, the variable nor the transform of the node, which is all that the
  \<open>check\<close> of a heuristic reads, and the only type that it sets is \<open>OR\<close>.
\<close>

lemma heuristic_forward:
  assumes "tr \<in> set (HEURISTICS m h)" and "tr_forward tr nd = Inr nd'"
  shows "node_children nd' \<noteq> [] \<and> node_expr nd' = node_expr nd \<and> node_var nd' = node_var nd
     \<and> node_transform nd' = node_transform nd
     \<and> (node_type nd' = node_type nd \<or> node_type nd' = OR)"
proof -
  from assms(1) consider "tr = B_Tan_tr m h" | "tr = A_tr m h" | "tr = C_Sin_tr m h"
    | "tr = C_Tan_tr m h"
    by (auto simp: HEURISTICS_def)
  then show ?thesis
  proof cases
    case 1
    with assms(2) show ?thesis
      by (auto simp: B_Tan_tr_def split: sum.splits prod.splits)
  next
    case 2
    with assms(2) obtain r1 r2 r3 stuff cs where
      loop: "remove_same_repr (repr_m m) (node_expr nd) 0 [r1, r2, r3] = Inr stuff"
      and cs: "map_res (\<lambda>option. Node_init m option (node_var nd) (Some A)) stuff = Inr cs"
      and nd': "nd' = set_type (set_children nd cs) OR"
      by (auto simp: A_tr_def split: sum.splits prod.splits)
    from remove_same_repr_three [OF loop] map_res_Inr_empty [OF cs] have "cs \<noteq> []"
      by simp
    with nd' show ?thesis
      by simp
  next
    case 3
    with assms(2) show ?thesis
      by (auto simp: C_Sin_tr_def split: sum.splits prod.splits)
  next
    case 4
    with assms(2) show ?thesis
      by (auto simp: C_Tan_tr_def split: sum.splits prod.splits)
  qed
qed

lemma heuristic_check:
  assumes "tr \<in> set (HEURISTICS m h)" and "node_expr a = node_expr b"
    and "node_var a = node_var b" and "node_transform a = node_transform b"
  shows "tr_check tr a = tr_check tr b"
  using assms
  by (auto simp: HEURISTICS_def B_Tan_tr_def A_tr_def C_Sin_tr_def C_Tan_tr_def
      cong: sum.case_cong if_cong)

lemma heuristic_loop_result:
  assumes "set trs \<subseteq> set (HEURISTICS m h)" and "heuristic_loop trs nd = Inr nd'"
  shows "node_expr nd' = node_expr nd \<and> node_var nd' = node_var nd
     \<and> node_transform nd' = node_transform nd
     \<and> (node_type nd' = node_type nd \<or> node_type nd' = OR)
     \<and> (if list_all (\<lambda>tr. tr_check tr nd = Inr False) trs then nd' = nd
         else node_children nd' \<noteq> [])"
  using assms
proof (induction trs arbitrary: nd)
  case Nil
  then show ?case by simp
next
  case (Cons tr trs)
  from Cons.prems(1) have tr: "tr \<in> set (HEURISTICS m h)"
    and trs: "set trs \<subseteq> set (HEURISTICS m h)"
    by simp_all
  from Cons.prems(2) obtain c where c: "tr_check tr nd = Inr c"
    by (cases "tr_check tr nd") simp_all
  show ?case
  proof (cases c)
    case False
    with c Cons.prems(2) have "heuristic_loop trs nd = Inr nd'"
      by simp
    from Cons.IH [OF trs this] c False show ?thesis
      by simp
  next
    case True
    with c Cons.prems(2) obtain nd1 where f: "tr_forward tr nd = Inr nd1"
      and run: "heuristic_loop trs nd1 = Inr nd'"
      by (cases "tr_forward tr nd") simp_all
    note fw = heuristic_forward [OF tr f]
    note ih = Cons.IH [OF trs run]
    from ih fw have "node_children nd' \<noteq> []"
      by (cases "list_all (\<lambda>tr. tr_check tr nd1 = Inr False) trs") auto
    with ih fw c True show ?thesis
      by auto
  qed
qed

text \<open>
  \<open>_integrate_heuristically\<close> on a leaf that is not failed: the node is marked \<open>FAILURE\<close>
  exactly when the \<open>check\<close> of no heuristic holds on it.
\<close>

lemma integrate_heuristically_failure:
  assumes "integrate_heuristically (HEURISTICS m h) nd = Inr nd'"
    and "node_children nd = []" and "node_type nd \<noteq> FAILURE"
  shows "node_type nd' = FAILURE
     \<longleftrightarrow> list_all (\<lambda>tr. tr_check tr nd = Inr False) (HEURISTICS m h)"
proof -
  from assms(1) obtain nd1 where run: "heuristic_loop (HEURISTICS m h) nd = Inr nd1"
    by (cases "heuristic_loop (HEURISTICS m h) nd") (simp_all add: integrate_heuristically_def)
  note r = heuristic_loop_result [OF subset_refl run]
  show ?thesis
  proof (cases "list_all (\<lambda>tr. tr_check tr nd = Inr False) (HEURISTICS m h)")
    case True
    with r have "nd1 = nd" by simp
    with assms(1,2) run True show ?thesis
      by (auto simp: integrate_heuristically_def)
  next
    case False
    with r have "node_children nd1 \<noteq> []" by simp
    with assms(1,3) run r False show ?thesis
      by (auto simp: integrate_heuristically_def split: if_splits)
  qed
qed

text \<open>
  \<open>forward\<close> of a safe transform makes fresh leaves of the type \<open>UNSET\<close> and sets no type
  but \<open>AND\<close>, so \<open>_integrate_safely\<close> leaves a tree without \<open>FAILURE\<close> as one.
\<close>

lemma safe_forward:
  assumes "tr \<in> set (SAFE_TRANSFORMS m h)" and "tr_forward tr nd = Inr nd'"
    and "node_type nd \<noteq> FAILURE"
  shows "node_type nd' \<noteq> FAILURE \<and> list_all failure_free (node_children nd')"
proof -
  have fresh: "failure_free c" if "Node_init m e v t = Inr c" for e v t c
    using Node_init_Inr [OF that] by (cases c) simp
  from assms(1) consider "tr = Additivity_tr m" | "tr = PullConstant_tr m" | "tr = Expand_tr m h"
    | "tr = PolynomialDivision_tr m h"
    by (auto simp: SAFE_TRANSFORMS_def)
  then show ?thesis
  proof cases
    case 1
    with assms(2) obtain ts cs where
      cs: "map_res (\<lambda>e. Node_init m e (node_var nd) (Some Additivity)) ts = Inr cs"
      and nd': "nd' = set_children (set_type nd AND) cs"
      by (auto simp: Additivity_tr_def split: expr.splits sum.splits)
    from map_res_Inr_all [OF cs, of failure_free] fresh have "list_all failure_free cs"
      by blast
    with nd' show ?thesis by simp
  next
    case 2
    with assms(2,3) fresh show ?thesis
      by (auto simp: PullConstant_tr_def split: sum.splits option.splits prod.splits)
  next
    case 3
    with assms(2,3) fresh show ?thesis
      by (auto simp: Expand_tr_def split: sum.splits)
  next
    case 4
    with assms(2,3) fresh show ?thesis
      by (auto simp: PolynomialDivision_tr_def split: sum.splits option.splits)
  qed
qed

lemma failure_free_iff:
  "failure_free nd \<longleftrightarrow> node_type nd \<noteq> FAILURE \<and> list_all failure_free (node_children nd)"
  by (cases nd) simp

lemma safe_loop_failure_free:
  assumes ih: "\<And>x y. integrate_safely k (SAFE_TRANSFORMS m h) x = Inr y \<Longrightarrow> failure_free x
      \<Longrightarrow> failure_free y"
    and "set trs \<subseteq> set (SAFE_TRANSFORMS m h)"
    and "safe_loop k (SAFE_TRANSFORMS m h) trs nd = Inr nd'" and "failure_free nd"
  shows "failure_free nd'"
  using assms(2-)
proof (induction trs arbitrary: nd)
  case Nil
  then show ?case by simp
next
  case (Cons tr trs)
  from Cons.prems(1) have tr: "tr \<in> set (SAFE_TRANSFORMS m h)"
    and trs: "set trs \<subseteq> set (SAFE_TRANSFORMS m h)"
    by simp_all
  from Cons.prems(2) obtain c where c: "tr_check tr nd = Inr c"
    by (cases "tr_check tr nd") simp_all
  show ?case
  proof (cases c)
    case False
    with c Cons.prems(2) have "safe_loop k (SAFE_TRANSFORMS m h) trs nd = Inr nd'"
      by simp
    from Cons.IH [OF trs this Cons.prems(3)] show ?thesis .
  next
    case True
    with c Cons.prems(2) obtain nd1 cs where f: "tr_forward tr nd = Inr nd1"
      and cs: "map_res (integrate_safely k (SAFE_TRANSFORMS m h)) (node_children nd1) = Inr cs"
      and run: "safe_loop k (SAFE_TRANSFORMS m h) trs (set_children nd1 cs) = Inr nd'"
      by (auto split: sum.splits)
    from Cons.prems(3) have "node_type nd \<noteq> FAILURE"
      by (simp add: failure_free_iff)
    from safe_forward [OF tr f this] have ty: "node_type nd1 \<noteq> FAILURE"
      and fresh: "list_all failure_free (node_children nd1)"
      by simp_all
    have "list_all failure_free cs"
    proof (rule map_res_Inr_all [OF cs], intro ballI allI impI)
      fix x y
      assume x: "x \<in> set (node_children nd1)"
        and y: "integrate_safely k (SAFE_TRANSFORMS m h) x = Inr y"
      from fresh x have "failure_free x"
        by (simp add: list_all_iff)
      from ih [OF y this] show "failure_free y" .
    qed
    with ty have "failure_free (set_children nd1 cs)"
      by (simp add: failure_free_iff)
    from Cons.IH [OF trs run this] show ?thesis .
  qed
qed

lemma integrate_safely_failure_free:
  "integrate_safely k (SAFE_TRANSFORMS m h) nd = Inr nd' \<Longrightarrow> failure_free nd
     \<Longrightarrow> failure_free nd'"
proof (induction k arbitrary: nd nd')
  case 0
  then show ?case by simp
next
  case (Suc k)
  from Suc.prems(1)
  have "safe_loop k (SAFE_TRANSFORMS m h) (SAFE_TRANSFORMS m h) nd = Inr nd'"
    by simp
  from safe_loop_failure_free [OF Suc.IH subset_refl this Suc.prems(2)] show ?case .
qed

text \<open>The table marks a node \<open>SOLUTION\<close> or leaves it as it is.\<close>

lemma check_if_solvable_type:
  "check_if_solvable m nd = Inr nd' \<Longrightarrow> node_type nd' = node_type nd \<or> node_type nd' = SOLUTION"
  unfolding check_if_solvable_def by (auto split: sum.splits option.splits)


end
